theory Spec2Isabelle
  imports Main
begin

section \<open>Subchannels of a dilated wormhole: the data model\<close>

text \<open>
  The module \<^verbatim>\<open>wormhole/_dilation/subchannel.py\<close> is embedded as pure functions.
  A Python \<^verbatim>\<open>bytes\<close> value is a \<open>string\<close> (a list of 8-bit characters), an unbounded
  Python integer is an \<open>int\<close>. Objects the module only calls into (the manager, the
  application's protocol and its factory) are not implemented here: every call made on
  them is appended, in program order, to a trace of \<open>call\<close> values, and such a call
  is taken to return normally. A protocol object is an opaque handle; as every plain
  Python object it is truthy, so \<^verbatim>\<open>if self._protocol\<close> is the test
  \<open>protocol sc \<noteq> None\<close>.
\<close>

type_synonym bytes = string

text \<open>\<^verbatim>\<open>MAX_FRAME_LENGTH = 2**32 - 1 - 9 - 16\<close>\<close>

definition MAX_FRAME_LENGTH :: nat where
  "MAX_FRAME_LENGTH = 2 ^ 32 - 1 - 9 - 16"

text \<open>
  The exceptions the module raises: its own two classes, the \<^verbatim>\<open>AssertionError\<close> of an
  \<^verbatim>\<open>assert\<close>, the \<^verbatim>\<open>TypeError\<close> of an \<^verbatim>\<open>instance_of\<close> validator, the
  \<^verbatim>\<open>NoTransition\<close> of the state machine for an input its current state has no
  transition for, the \<^verbatim>\<open>AttributeError\<close> of a method call on \<^verbatim>\<open>None\<close>, and a failure of the readiness signal handed on to the caller.
\<close>

type_synonym failure = nat

datatype error =
    AssertionError
  | AlreadyClosedError
  | SingleUseEndpointError
  | TypeError
  | NoTransition
  | AttributeError
  | ReadinessFailure failure

datatype reason = ConnectionDone

text \<open>Values a caller can hand to a validated attribute.\<close>

datatype pyobj =
    PyInt int
  | PyBool bool
  | PyBytes bytes
  | PyStr string
  | PyNone

datatype WormholeAddress = WormholeAddress

datatype SubchannelAddress = SubchannelAddress int

type_synonym protocol = nat

text \<open>The address of a \<^verbatim>\<open>SubChannel\<close> object in the store.\<close>

type_synonym ref = nat

text \<open>Calls on the collaborators, as they appear in the source.\<close>

datatype call =
    manager_send_data int bytes
  | manager_send_close int
  | manager_send_open int
  | manager_allocate_subchannel_id
  | manager_subchannel_closed int
  | manager_subchannel_local_open int
  | factory_buildProtocol SubchannelAddress
  | protocol_dataReceived protocol bytes
  | protocol_connectionLost protocol "reason option"
  | protocol_makeConnection protocol ref

datatype state = "open" | closing | closed

datatype input =
    remote_data bytes
  | remote_close
  | local_data bytes
  | local_close

record SubChannel =
  scid :: int
  host_addr :: WormholeAddress
  peer_addr :: SubchannelAddress
  m_state :: state
  protocol :: "protocol option"
  pending_dataReceived :: "bytes list"
  pending_connectionLost :: "bool \<times> reason option"

text \<open>
  What a method leaves behind: the object after the call, the calls it made on its
  collaborators, and the exception it raised, if any.
\<close>

type_synonym result = "SubChannel \<times> call list \<times> error option"

text \<open>The constructor with \<^verbatim>\<open>__attrs_post_init__\<close>; the machine starts in \<open>open\<close>.\<close>

definition new_SubChannel :: "int \<Rightarrow> WormholeAddress \<Rightarrow> SubchannelAddress \<Rightarrow> SubChannel" where
  "new_SubChannel i h a =
     \<lparr> scid = i, host_addr = h, peer_addr = a, m_state = open, protocol = None,
       pending_dataReceived = [], pending_connectionLost = (False, None) \<rparr>"

section \<open>The outputs of the state machine\<close>

definition send_data :: "bytes \<Rightarrow> SubChannel \<Rightarrow> result" where
  "send_data data sc = (sc, [manager_send_data (scid sc) data], None)"

definition send_close :: "SubChannel \<Rightarrow> result" where
  "send_close sc = (sc, [manager_send_close (scid sc)], None)"

definition signal_dataReceived :: "bytes \<Rightarrow> SubChannel \<Rightarrow> result" where
  "signal_dataReceived data sc =
     (case protocol sc of
        Some p \<Rightarrow> (sc, [protocol_dataReceived p data], None)
      | None \<Rightarrow> (sc\<lparr>pending_dataReceived := pending_dataReceived sc @ [data]\<rparr>, [], None))"

definition signal_connectionLost :: "SubChannel \<Rightarrow> result" where
  "signal_connectionLost sc =
     (case protocol sc of
        Some p \<Rightarrow>
          (sc, [protocol_connectionLost p (Some ConnectionDone),
                manager_subchannel_closed (scid sc)], None)
      | None \<Rightarrow>
          (sc\<lparr>pending_connectionLost := (True, Some ConnectionDone)\<rparr>,
           [manager_subchannel_closed (scid sc)], None))"

definition error_closed_write :: "bytes \<Rightarrow> SubChannel \<Rightarrow> result" where
  "error_closed_write data sc = (sc, [], Some AlreadyClosedError)"

definition error_closed_close :: "SubChannel \<Rightarrow> result" where
  "error_closed_close sc = (sc, [], Some AlreadyClosedError)"

section \<open>The transitions\<close>

text \<open>
  One equation for each \<^verbatim>\<open>upon\<close> line of the class body, in its order; \<open>closed\<close>
  has none.
\<close>

fun upon :: "state \<Rightarrow> input \<Rightarrow> (state \<times> (SubChannel \<Rightarrow> result) list) option" where
  "upon open (remote_data d) = Some (open, [signal_dataReceived d])"
| "upon open (local_data d) = Some (open, [send_data d])"
| "upon open remote_close = Some (closed, [send_close, signal_connectionLost])"
| "upon open local_close = Some (closing, [send_close])"
| "upon closing (remote_data d) = Some (closing, [signal_dataReceived d])"
| "upon closing remote_close = Some (closed, [signal_connectionLost])"
| "upon closing (local_data d) = Some (closing, [error_closed_write d])"
| "upon closing local_close = Some (closing, [error_closed_close])"
| "upon closed i = None"

text \<open>The outputs of a transition run in list order; an exception ends the run.\<close>

fun run_outputs :: "(SubChannel \<Rightarrow> result) list \<Rightarrow> SubChannel \<Rightarrow> result" where
  "run_outputs [] sc = (sc, [], None)"
| "run_outputs (out # outs) sc =
     (case out sc of
        (sc1, cs1, Some e) \<Rightarrow> (sc1, cs1, Some e)
      | (sc1, cs1, None) \<Rightarrow>
          (case run_outputs outs sc1 of (sc2, cs2, r) \<Rightarrow> (sc2, cs1 @ cs2, r)))"

text \<open>
  Calling an input method of the machine: the transition is looked up (an input with
  no transition raises and changes nothing), the new state is entered, then the outputs
  run.
\<close>

definition m_input :: "input \<Rightarrow> SubChannel \<Rightarrow> result" where
  "m_input i sc =
     (case upon (m_state sc) i of
        None \<Rightarrow> (sc, [], Some NoTransition)
      | Some (s', outs) \<Rightarrow> run_outputs outs (sc\<lparr>m_state := s'\<rparr>))"

text \<open>A sequence of input calls made one after the other, up to the first that raises.\<close>

fun m_inputs :: "input list \<Rightarrow> SubChannel \<Rightarrow> result" where
  "m_inputs [] sc = (sc, [], None)"
| "m_inputs (i # is) sc =
     (case m_input i sc of
        (sc1, cs1, Some e) \<Rightarrow> (sc1, cs1, Some e)
      | (sc1, cs1, None) \<Rightarrow>
          (case m_inputs is sc1 of (sc2, cs2, r) \<Rightarrow> (sc2, cs1 @ cs2, r)))"

section \<open>Binding the consumer, and the transport methods\<close>

definition set_protocol :: "protocol \<Rightarrow> SubChannel \<Rightarrow> result" where
  "set_protocol p sc =
     (if protocol sc \<noteq> None then (sc, [], Some AssertionError)
      else
        let sc1 = sc\<lparr>protocol := Some p\<rparr>;
            cs1 = (if pending_dataReceived sc1 \<noteq> []
                   then map (protocol_dataReceived p) (pending_dataReceived sc1) else []);
            sc2 = (if pending_dataReceived sc1 \<noteq> []
                   then sc1\<lparr>pending_dataReceived := []\<rparr> else sc1);
            cs2 = (case pending_connectionLost sc2 of
                     (cl, what) \<Rightarrow> if cl then [protocol_connectionLost p what] else [])
        in (sc2, cs1 @ cs2, None))"

text \<open>
  The method \<^verbatim>\<open>write\<close> of the transport (the bare name is reserved in Isabelle): the
  argument is typed \<open>bytes\<close>, so the first assertion holds; the second
  is the length check.
\<close>

definition transport_write :: "bytes \<Rightarrow> SubChannel \<Rightarrow> result" where
  "transport_write data sc =
     (if \<not> length data \<le> MAX_FRAME_LENGTH then (sc, [], Some AssertionError)
      else m_input (local_data data) sc)"

definition writeSequence :: "bytes list \<Rightarrow> SubChannel \<Rightarrow> result" where
  "writeSequence iovec sc = transport_write (concat iovec) sc"

definition loseConnection :: "SubChannel \<Rightarrow> result" where
  "loseConnection sc = m_input local_close sc"

text \<open>
  Any call a holder of the object can make on it, and a run of such calls: one that
  raises hands the exception to its caller, and the next call finds the object as the
  failed one left it.
\<close>

datatype api_call =
    call_input input
  | call_set_protocol protocol
  | call_write bytes
  | call_writeSequence "bytes list"
  | call_loseConnection

fun call_method :: "api_call \<Rightarrow> SubChannel \<Rightarrow> result" where
  "call_method (call_input i) sc = m_input i sc"
| "call_method (call_set_protocol p) sc = set_protocol p sc"
| "call_method (call_write data) sc = transport_write data sc"
| "call_method (call_writeSequence iovec) sc = writeSequence iovec sc"
| "call_method call_loseConnection sc = loseConnection sc"

fun call_methods :: "api_call list \<Rightarrow> SubChannel \<Rightarrow> SubChannel \<times> call list" where
  "call_methods [] sc = (sc, [])"
| "call_methods (m # ms) sc =
     (case call_method m sc of
        (sc1, cs1, exc) \<Rightarrow> (case call_methods ms sc1 of (sc2, cs2) \<Rightarrow> (sc2, cs1 @ cs2)))"

section \<open>Validated construction of an address\<close>

text \<open>
  \<^verbatim>\<open>instance_of(six.integer_types)\<close> is \<^verbatim>\<open>isinstance\<close> against the integer types;
  \<^verbatim>\<open>bool\<close> is a subclass of \<^verbatim>\<open>int\<close>. The validator is the only check of
  \<^verbatim>\<open>_SubchannelAddress\<close>; it raises \<^verbatim>\<open>TypeError\<close>.
\<close>

fun instance_of_integer_types :: "pyobj \<Rightarrow> bool" where
  "instance_of_integer_types (PyInt n) = True"
| "instance_of_integer_types (PyBool b) = True"
| "instance_of_integer_types (PyBytes b) = False"
| "instance_of_integer_types (PyStr s) = False"
| "instance_of_integer_types PyNone = False"

fun int_value :: "pyobj \<Rightarrow> int" where
  "int_value (PyInt n) = n"
| "int_value (PyBool b) = (if b then 1 else 0)"
| "int_value v = 0"

definition new_SubchannelAddress :: "pyobj \<Rightarrow> error + SubchannelAddress" where
  "new_SubchannelAddress v =
     (if instance_of_integer_types v then Inr (SubchannelAddress (int_value v))
      else Inl TypeError)"

section \<open>The store, the trace and the readiness signal\<close>

text \<open>
  The endpoints hold references to subchannel objects that the manager holds too, so
  the objects live in a store. \<open>trace\<close> is every call made on a collaborator so far.
  The manager's \<^verbatim>\<open>allocate_subchannel_id\<close> is a parameter: \<open>mgr_ids k\<close> is what
  its \<open>k\<close>th call returns.
\<close>

record world =
  heap :: "ref \<Rightarrow> SubChannel"
  next_ref :: ref
  trace :: "call list"
  mgr_ids :: "nat \<Rightarrow> int"
  mgr_allocated :: nat

type_synonym factory = "SubchannelAddress \<Rightarrow> protocol"

text \<open>The \<^verbatim>\<open>Deferred\<close> an endpoint call returns, as the caller sees it.\<close>

datatype 'a deferred = waiting | fired 'a | errback error

datatype outcome = ready | failed failure

text \<open>
  Modelled from the spec: the one-shot readiness signal, class \<^verbatim>\<open>OneShotObserver\<close> of
  \<^verbatim>\<open>wormhole/observer.py\<close>, which is not among the sources. It is a settle-once cell
  with two outcomes; a waiter that registers is resolved at once when the signal has
  settled and is queued until it settles otherwise; the queued waiters are notified
  once each, in the order they registered. A second settle changes nothing.
\<close>

record 'w OneShotObserver =
  obs_result :: "outcome option"
  observers :: "'w list"

definition new_OneShotObserver :: "'w OneShotObserver" where
  "new_OneShotObserver = \<lparr> obs_result = None, observers = [] \<rparr>"

definition when_fired :: "'w \<Rightarrow> 'w OneShotObserver \<Rightarrow> 'w OneShotObserver \<times> outcome option" where
  "when_fired k obs =
     (case obs_result obs of
        None \<Rightarrow> (obs\<lparr>observers := observers obs @ [k]\<rparr>, None)
      | Some r \<Rightarrow> (obs, Some r))"

definition settle :: "outcome \<Rightarrow> 'w OneShotObserver \<Rightarrow> 'w OneShotObserver \<times> 'w list" where
  "settle r obs =
     (case obs_result obs of
        None \<Rightarrow> (obs\<lparr>obs_result := Some r, observers := []\<rparr>, observers obs)
      | Some r' \<Rightarrow> (obs, []))"

text \<open>The suspended calls resume one after the other; each yields its Deferred's result.\<close>

fun resume_all :: "('w \<Rightarrow> 's \<Rightarrow> 's \<times> 'd) \<Rightarrow> 'w list \<Rightarrow> 's \<Rightarrow> 's \<times> 'd list" where
  "resume_all body [] s = (s, [])"
| "resume_all body (k # ks) s =
     (case body k s of
        (s1, d) \<Rightarrow> (case resume_all body ks s1 of (s2, ds) \<Rightarrow> (s2, d # ds)))"

text \<open>The three calls every endpoint makes on a factory, a subchannel and a protocol.\<close>

definition log :: "call list \<Rightarrow> world \<Rightarrow> world" where
  "log cs w = w\<lparr>trace := trace w @ cs\<rparr>"

definition heap_set_protocol :: "protocol \<Rightarrow> ref \<Rightarrow> world \<Rightarrow> world \<times> error option" where
  "heap_set_protocol p t w =
     (case set_protocol p (heap w t) of
        (sc', cs, exc) \<Rightarrow> (log cs (w\<lparr>heap := (heap w)(t := sc')\<rparr>), exc))"

text \<open>
  \<^verbatim>\<open>p = factory.buildProtocol(addr); t._set_protocol(p); p.makeConnection(t)\<close>, the
  tail shared by the three endpoints. The protocol built is returned with the exception,
  if one ended the sequence.
\<close>

definition build_and_connect :: "factory \<Rightarrow> SubchannelAddress \<Rightarrow> ref \<Rightarrow> world \<Rightarrow> world \<times> protocol \<times> error option" where
  "build_and_connect f a t w =
     (let p = f a;
          w1 = log [factory_buildProtocol a] w
      in case heap_set_protocol p t w1 of
           (w2, Some e) \<Rightarrow> (w2, p, Some e)
         | (w2, None) \<Rightarrow> (log [protocol_makeConnection p t] w2, p, None))"

section \<open>The control endpoint\<close>

record ControlEndpoint =
  ce_peer_addr :: SubchannelAddress
  subchannel_zero :: ref
  ce_once :: bool
  ce_wait_for_main_channel :: "factory OneShotObserver"

definition new_ControlEndpoint :: "SubchannelAddress \<Rightarrow> ref \<Rightarrow> ControlEndpoint" where
  "new_ControlEndpoint a z =
     \<lparr> ce_peer_addr = a, subchannel_zero = z, ce_once = False,
       ce_wait_for_main_channel = new_OneShotObserver \<rparr>"

text \<open>\<^verbatim>\<open>ControlEndpoint.connect\<close> from its \<^verbatim>\<open>yield\<close> on, given what the signal settled to.\<close>

definition ce_connect_resume :: "outcome \<Rightarrow> factory \<Rightarrow> ControlEndpoint \<times> world \<Rightarrow> (ControlEndpoint \<times> world) \<times> protocol deferred" where
  "ce_connect_resume r f s =
     (case s of (ep, w) \<Rightarrow>
        (case r of
           failed x \<Rightarrow> ((ep, w), errback (ReadinessFailure x))
         | ready \<Rightarrow>
             (case build_and_connect f (ce_peer_addr ep) (subchannel_zero ep) w of
                (w1, p, Some e) \<Rightarrow> ((ep, w1), errback e)
              | (w1, p, None) \<Rightarrow> ((ep, w1), fired p))))"

text \<open>\<^verbatim>\<open>ControlEndpoint.connect\<close>: the single-use guard, then the wait.\<close>

definition ce_connect :: "factory \<Rightarrow> ControlEndpoint \<times> world \<Rightarrow> (ControlEndpoint \<times> world) \<times> protocol deferred" where
  "ce_connect f s =
     (case s of (ep, w) \<Rightarrow>
        if ce_once ep then ((ep, w), errback SingleUseEndpointError)
        else
          let ep1 = ep\<lparr>ce_once := True\<rparr> in
          (case when_fired f (ce_wait_for_main_channel ep1) of
             (obs, None) \<Rightarrow> ((ep1\<lparr>ce_wait_for_main_channel := obs\<rparr>, w), waiting)
           | (obs, Some r) \<Rightarrow>
               ce_connect_resume r f (ep1\<lparr>ce_wait_for_main_channel := obs\<rparr>, w)))"

text \<open>
  \<^verbatim>\<open>_main_channel_ready\<close> and \<^verbatim>\<open>_main_channel_failed\<close> settle the signal; the
  suspended calls resume, and the list holds what each one's Deferred fires with.
\<close>

definition ce_main_channel :: "outcome \<Rightarrow> ControlEndpoint \<times> world \<Rightarrow> (ControlEndpoint \<times> world) \<times> protocol deferred list" where
  "ce_main_channel r s =
     (case s of (ep, w) \<Rightarrow>
        (case settle r (ce_wait_for_main_channel ep) of
           (obs, ks) \<Rightarrow>
             resume_all (ce_connect_resume r) ks (ep\<lparr>ce_wait_for_main_channel := obs\<rparr>, w)))"

section \<open>The connector endpoint\<close>

record SubchannelConnectorEndpoint =
  co_host_addr :: WormholeAddress
  co_wait_for_main_channel :: "factory OneShotObserver"

definition new_SubchannelConnectorEndpoint :: "WormholeAddress \<Rightarrow> SubchannelConnectorEndpoint" where
  "new_SubchannelConnectorEndpoint h =
     \<lparr> co_host_addr = h, co_wait_for_main_channel = new_OneShotObserver \<rparr>"

definition allocate_subchannel_id :: "world \<Rightarrow> int \<times> world" where
  "allocate_subchannel_id w =
     (mgr_ids w (mgr_allocated w),
      log [manager_allocate_subchannel_id] (w\<lparr>mgr_allocated := Suc (mgr_allocated w)\<rparr>))"

text \<open>A new object takes the next free address of the store.\<close>

definition alloc_SubChannel :: "SubChannel \<Rightarrow> world \<Rightarrow> ref \<times> world" where
  "alloc_SubChannel sc w =
     (next_ref w, w\<lparr>heap := (heap w)(next_ref w := sc), next_ref := Suc (next_ref w)\<rparr>)"

text \<open>\<^verbatim>\<open>SubchannelConnectorEndpoint.connect\<close> from its \<^verbatim>\<open>yield\<close> on.\<close>

definition co_connect_resume :: "outcome \<Rightarrow> factory \<Rightarrow> SubchannelConnectorEndpoint \<times> world \<Rightarrow> (SubchannelConnectorEndpoint \<times> world) \<times> protocol deferred" where
  "co_connect_resume r f s =
     (case s of (ep, w) \<Rightarrow>
        (case r of
           failed x \<Rightarrow> ((ep, w), errback (ReadinessFailure x))
         | ready \<Rightarrow>
             (case allocate_subchannel_id w of
                (i, w1) \<Rightarrow>
                  let w2 = log [manager_send_open i] w1;
                      peer = SubchannelAddress i
                  in (case alloc_SubChannel (new_SubChannel i (co_host_addr ep) peer) w2 of
                        (t, w3) \<Rightarrow>
                          let w4 = log [manager_subchannel_local_open i] w3
                          in (case build_and_connect f peer t w4 of
                                (w5, p, Some e) \<Rightarrow> ((ep, w5), errback e)
                              | (w5, p, None) \<Rightarrow> ((ep, w5), fired p))))))"

definition co_connect :: "factory \<Rightarrow> SubchannelConnectorEndpoint \<times> world \<Rightarrow> (SubchannelConnectorEndpoint \<times> world) \<times> protocol deferred" where
  "co_connect f s =
     (case s of (ep, w) \<Rightarrow>
        (case when_fired f (co_wait_for_main_channel ep) of
           (obs, None) \<Rightarrow> ((ep\<lparr>co_wait_for_main_channel := obs\<rparr>, w), waiting)
         | (obs, Some r) \<Rightarrow>
             co_connect_resume r f (ep\<lparr>co_wait_for_main_channel := obs\<rparr>, w)))"

definition co_main_channel :: "outcome \<Rightarrow> SubchannelConnectorEndpoint \<times> world \<Rightarrow> (SubchannelConnectorEndpoint \<times> world) \<times> protocol deferred list" where
  "co_main_channel r s =
     (case s of (ep, w) \<Rightarrow>
        (case settle r (co_wait_for_main_channel ep) of
           (obs, ks) \<Rightarrow>
             resume_all (co_connect_resume r) ks (ep\<lparr>co_wait_for_main_channel := obs\<rparr>, w)))"

section \<open>The listener endpoint\<close>

datatype SubchannelListeningPort = SubchannelListeningPort WormholeAddress

record SubchannelListenerEndpoint =
  le_host_addr :: WormholeAddress
  le_once :: bool
  le_factory :: "factory option"
  pending_opens :: "(ref \<times> SubchannelAddress) list"
  le_wait_for_main_channel :: "factory OneShotObserver"

definition new_SubchannelListenerEndpoint :: "WormholeAddress \<Rightarrow> SubchannelListenerEndpoint" where
  "new_SubchannelListenerEndpoint h =
     \<lparr> le_host_addr = h, le_once = False, le_factory = None, pending_opens = [],
       le_wait_for_main_channel = new_OneShotObserver \<rparr>"

text \<open>\<^verbatim>\<open>_connect\<close> reads the factory of the endpoint.\<close>

definition le_connect :: "ref \<Rightarrow> SubchannelAddress \<Rightarrow> SubchannelListenerEndpoint \<Rightarrow> world \<Rightarrow> world \<times> error option" where
  "le_connect t a ep w =
     (case le_factory ep of
        None \<Rightarrow> (w, Some AttributeError)
      | Some f \<Rightarrow> (case build_and_connect f a t w of (w1, p, exc) \<Rightarrow> (w1, exc)))"

definition got_open :: "ref \<Rightarrow> SubchannelAddress \<Rightarrow> SubchannelListenerEndpoint \<times> world \<Rightarrow> (SubchannelListenerEndpoint \<times> world) \<times> error option" where
  "got_open t a s =
     (case s of (ep, w) \<Rightarrow>
        if le_factory ep \<noteq> None
        then (case le_connect t a ep w of (w1, exc) \<Rightarrow> ((ep, w1), exc))
        else ((ep\<lparr>pending_opens := pending_opens ep @ [(t, a)]\<rparr>, w), None))"

text \<open>
  The \<^verbatim>\<open>while\<close> loop of \<^verbatim>\<open>listen\<close>: \<^verbatim>\<open>popleft\<close>, then \<^verbatim>\<open>_connect\<close>; an exception
  leaves the loop with the rest of the queue in place.
\<close>

function listen_loop :: "SubchannelListenerEndpoint \<times> world \<Rightarrow> (SubchannelListenerEndpoint \<times> world) \<times> error option" where
  "listen_loop (ep, w) =
     (if pending_opens ep = [] then ((ep, w), None)
      else
        let ta = hd (pending_opens ep);
            ep1 = ep\<lparr>pending_opens := tl (pending_opens ep)\<rparr>
        in (case le_connect (fst ta) (snd ta) ep1 w of
              (w1, Some e) \<Rightarrow> ((ep1, w1), Some e)
            | (w1, None) \<Rightarrow> listen_loop (ep1, w1)))"
  by pat_completeness auto
termination
  by (relation "measure (\<lambda>(ep, w). length (pending_opens ep))") auto

declare listen_loop.simps [simp del]

text \<open>\<^verbatim>\<open>SubchannelListenerEndpoint.listen\<close> from its \<^verbatim>\<open>yield\<close> on.\<close>

definition listen_resume :: "outcome \<Rightarrow> factory \<Rightarrow> SubchannelListenerEndpoint \<times> world \<Rightarrow> (SubchannelListenerEndpoint \<times> world) \<times> SubchannelListeningPort deferred" where
  "listen_resume r f s =
     (case s of (ep, w) \<Rightarrow>
        (case r of
           failed x \<Rightarrow> ((ep, w), errback (ReadinessFailure x))
         | ready \<Rightarrow>
             (case listen_loop (ep\<lparr>le_factory := Some f\<rparr>, w) of
                ((ep1, w1), Some e) \<Rightarrow> ((ep1, w1), errback e)
              | ((ep1, w1), None) \<Rightarrow>
                  ((ep1, w1), fired (SubchannelListeningPort (le_host_addr ep1))))))"

definition listen :: "factory \<Rightarrow> SubchannelListenerEndpoint \<times> world \<Rightarrow> (SubchannelListenerEndpoint \<times> world) \<times> SubchannelListeningPort deferred" where
  "listen f s =
     (case s of (ep, w) \<Rightarrow>
        if le_once ep then ((ep, w), errback SingleUseEndpointError)
        else
          let ep1 = ep\<lparr>le_once := True\<rparr> in
          (case when_fired f (le_wait_for_main_channel ep1) of
             (obs, None) \<Rightarrow> ((ep1\<lparr>le_wait_for_main_channel := obs\<rparr>, w), waiting)
           | (obs, Some r) \<Rightarrow>
               listen_resume r f (ep1\<lparr>le_wait_for_main_channel := obs\<rparr>, w)))"

definition le_main_channel :: "outcome \<Rightarrow> SubchannelListenerEndpoint \<times> world \<Rightarrow> (SubchannelListenerEndpoint \<times> world) \<times> SubchannelListeningPort deferred list" where
  "le_main_channel r s =
     (case s of (ep, w) \<Rightarrow>
        (case settle r (le_wait_for_main_channel ep) of
           (obs, ks) \<Rightarrow>
             resume_all (listen_resume r) ks (ep\<lparr>le_wait_for_main_channel := obs\<rparr>, w)))"

section \<open>Properties of the subchannel\<close>

lemma MAX_FRAME_LENGTH_value: "MAX_FRAME_LENGTH = 4294967270"
  by (simp add: MAX_FRAME_LENGTH_def)

lemma m_input_remote_data_unbound:
  "m_state sc \<noteq> closed \<Longrightarrow> protocol sc = None \<Longrightarrow>
   m_input (remote_data d) sc = (sc\<lparr>pending_dataReceived := pending_dataReceived sc @ [d]\<rparr>, [], None)"
  by (cases "m_state sc") (simp_all add: m_input_def signal_dataReceived_def)

lemma m_inputs_remote_data_unbound:
  "m_state sc \<noteq> closed \<Longrightarrow> protocol sc = None \<Longrightarrow>
   m_inputs (map remote_data ds) sc = (sc\<lparr>pending_dataReceived := pending_dataReceived sc @ ds\<rparr>, [], None)"
proof (induction ds arbitrary: sc)
  case Nil
  then show ?case by simp
next
  case (Cons d ds)
  let ?sc1 = "sc\<lparr>pending_dataReceived := pending_dataReceived sc @ [d]\<rparr>"
  have "m_inputs (map remote_data ds) ?sc1 =
        (?sc1\<lparr>pending_dataReceived := pending_dataReceived ?sc1 @ ds\<rparr>, [], None)"
    using Cons.prems by (intro Cons.IH) simp_all
  then show ?case
    using Cons.prems by (simp add: m_input_remote_data_unbound)
qed

lemma m_inputs_append:
  "m_inputs xs sc = (sc1, cs1, None) \<Longrightarrow>
   m_inputs (xs @ ys) sc = (case m_inputs ys sc1 of (sc2, cs2, r) \<Rightarrow> (sc2, cs1 @ cs2, r))"
proof (induction xs arbitrary: sc cs1)
  case Nil
  then show ?case by (simp split: prod.splits)
next
  case (Cons x xs)
  then show ?case
    by (auto split: prod.splits option.splits)
qed

lemma m_input_remote_close_open:
  "m_state sc = open \<Longrightarrow>
   m_input remote_close sc =
     (case protocol sc of
        Some p \<Rightarrow>
          (sc\<lparr>m_state := closed\<rparr>,
           [manager_send_close (scid sc), protocol_connectionLost p (Some ConnectionDone),
            manager_subchannel_closed (scid sc)], None)
      | None \<Rightarrow>
          (sc\<lparr>m_state := closed, pending_connectionLost := (True, Some ConnectionDone)\<rparr>,
           [manager_send_close (scid sc), manager_subchannel_closed (scid sc)], None))"
  by (simp add: m_input_def send_close_def signal_connectionLost_def split: option.splits)

lemma m_input_remote_close_closing:
  "m_state sc = closing \<Longrightarrow>
   m_input remote_close sc =
     (case protocol sc of
        Some p \<Rightarrow>
          (sc\<lparr>m_state := closed\<rparr>,
           [protocol_connectionLost p (Some ConnectionDone),
            manager_subchannel_closed (scid sc)], None)
      | None \<Rightarrow>
          (sc\<lparr>m_state := closed, pending_connectionLost := (True, Some ConnectionDone)\<rparr>,
           [manager_subchannel_closed (scid sc)], None))"
  by (simp add: m_input_def send_close_def signal_connectionLost_def split: option.splits)

lemma set_protocol_unbound:
  "protocol sc = None \<Longrightarrow>
   set_protocol p sc =
     (sc\<lparr>protocol := Some p, pending_dataReceived := []\<rparr>,
      map (protocol_dataReceived p) (pending_dataReceived sc) @
      (if fst (pending_connectionLost sc)
       then [protocol_connectionLost p (snd (pending_connectionLost sc))] else []),
      None)"
  by (cases "pending_connectionLost sc") (simp add: set_protocol_def Let_def)

lemma set_protocol_bound:
  "protocol sc = Some q \<Longrightarrow> set_protocol p sc = (sc, [], Some AssertionError)"
  by (simp add: set_protocol_def)

lemma run_outputs_protocol:
  "upon st i = Some (st', outs) \<Longrightarrow> protocol (fst (run_outputs outs sc)) = protocol sc"
  by (cases st; cases i)
     (auto simp: signal_dataReceived_def send_data_def send_close_def signal_connectionLost_def
        error_closed_write_def error_closed_close_def split: option.splits)

lemma m_input_protocol: "protocol (fst (m_input i sc)) = protocol sc"
  by (auto simp: m_input_def run_outputs_protocol split: option.splits)

lemma call_method_bound:
  "protocol sc = Some q \<Longrightarrow> protocol (fst (call_method m sc)) = Some q"
  by (cases m)
     (simp_all add: m_input_protocol set_protocol_bound transport_write_def writeSequence_def
        loseConnection_def)

lemma call_methods_bound:
  "protocol sc = Some q \<Longrightarrow> protocol (fst (call_methods ms sc)) = Some q"
proof (induction ms arbitrary: sc)
  case Nil
  then show ?case by simp
next
  case (Cons m ms)
  obtain sc1 cs1 exc where r: "call_method m sc = (sc1, cs1, exc)"
    by (cases "call_method m sc") auto
  with Cons.prems call_method_bound [of sc q m] have "protocol sc1 = Some q" by simp
  from Cons.IH [OF this] r show ?case by (cases "call_methods ms sc1") simp_all
qed


lemma m_inputs_data_then_close:
  assumes "protocol sc = None" and "m_state sc = open"
  shows "m_inputs (map remote_data ds @ [remote_close]) sc =
           (sc\<lparr>m_state := closed,
               pending_dataReceived := pending_dataReceived sc @ ds,
               pending_connectionLost := (True, Some ConnectionDone)\<rparr>,
            [manager_send_close (scid sc), manager_subchannel_closed (scid sc)], None)"
proof -
  let ?sc1 = "sc\<lparr>pending_dataReceived := pending_dataReceived sc @ ds\<rparr>"
  have 1: "m_inputs (map remote_data ds) sc = (?sc1, [], None)"
    using assms by (simp add: m_inputs_remote_data_unbound)
  have 2: "m_inputs [remote_close] ?sc1 =
             (sc\<lparr>m_state := closed,
               pending_dataReceived := pending_dataReceived sc @ ds,
               pending_connectionLost := (True, Some ConnectionDone)\<rparr>,
            [manager_send_close (scid sc), manager_subchannel_closed (scid sc)], None)"
    using assms by (simp add: m_input_remote_close_open)
  show ?thesis
    by (simp only: m_inputs_append [OF 1] 2) simp
qed

text \<open>
  Claim C1. Binding a consumer to a subchannel that has none delivers the buffered inbound
  data in the order it arrived, empties the buffer, and delivers a pending close after
  the data. For an open subchannel without consumer that receives the data \<open>ds\<close> and
  then the remote close, the consumer bound afterwards sees exactly
  \<open>dataReceived\<close> for what was buffered before and for each element of \<open>ds\<close> in order,
  then \<open>connectionLost\<close>, and the state is \<open>closed\<close>. The scenario of the
  specification (id 5, \<open>''AB''\<close>, \<open>''CD''\<close>, remote close, then the consumer) is the last
  conjunct.
\<close>

theorem buffered_delivery_on_attach:
  assumes "protocol sc = None"
  shows "set_protocol p sc =
           (sc\<lparr>protocol := Some p, pending_dataReceived := []\<rparr>,
            map (protocol_dataReceived p) (pending_dataReceived sc) @
            (if fst (pending_connectionLost sc)
             then [protocol_connectionLost p (snd (pending_connectionLost sc))] else []),
            None)
       \<and> (m_state sc = open \<longrightarrow>
           set_protocol p (fst (m_inputs (map remote_data ds @ [remote_close]) sc)) =
             (sc\<lparr>m_state := closed, protocol := Some p, pending_dataReceived := [],
                 pending_connectionLost := (True, Some ConnectionDone)\<rparr>,
              map (protocol_dataReceived p) (pending_dataReceived sc @ ds) @
              [protocol_connectionLost p (Some ConnectionDone)],
              None))
       \<and> set_protocol p
            (fst (m_inputs [remote_data ''AB'', remote_data ''CD'', remote_close]
                    (new_SubChannel 5 h a))) =
             ((new_SubChannel 5 h a)
                \<lparr>m_state := closed, protocol := Some p, pending_dataReceived := [],
                 pending_connectionLost := (True, Some ConnectionDone)\<rparr>,
              [protocol_dataReceived p ''AB'', protocol_dataReceived p ''CD'',
               protocol_connectionLost p (Some ConnectionDone)],
              None)"
proof (intro conjI impI)
  show "set_protocol p sc =
           (sc\<lparr>protocol := Some p, pending_dataReceived := []\<rparr>,
            map (protocol_dataReceived p) (pending_dataReceived sc) @
            (if fst (pending_connectionLost sc)
             then [protocol_connectionLost p (snd (pending_connectionLost sc))] else []),
            None)"
    using assms by (rule set_protocol_unbound)
next
  assume "m_state sc = open"
  with assms show
    "set_protocol p (fst (m_inputs (map remote_data ds @ [remote_close]) sc)) =
       (sc\<lparr>m_state := closed, protocol := Some p, pending_dataReceived := [],
           pending_connectionLost := (True, Some ConnectionDone)\<rparr>,
        map (protocol_dataReceived p) (pending_dataReceived sc @ ds) @
        [protocol_connectionLost p (Some ConnectionDone)],
        None)"
    by (simp add: m_inputs_data_then_close set_protocol_unbound)
next
  let ?sc = "new_SubChannel 5 h a"
  have u: "protocol ?sc = None" and o: "m_state ?sc = open"
    and e: "pending_dataReceived ?sc = []"
    by (simp_all add: new_SubChannel_def)
  have "m_inputs (map remote_data [''AB'', ''CD''] @ [remote_close]) ?sc =
          (?sc\<lparr>m_state := closed,
               pending_dataReceived := pending_dataReceived ?sc @ [''AB'', ''CD''],
               pending_connectionLost := (True, Some ConnectionDone)\<rparr>,
            [manager_send_close (scid ?sc), manager_subchannel_closed (scid ?sc)], None)"
    using u o by (rule m_inputs_data_then_close)
  then have "fst (m_inputs [remote_data ''AB'', remote_data ''CD'', remote_close] ?sc) =
          ?sc\<lparr>m_state := closed,
               pending_dataReceived := [''AB'', ''CD''],
               pending_connectionLost := (True, Some ConnectionDone)\<rparr>"
    by (simp add: e)
  then show "set_protocol p
            (fst (m_inputs [remote_data ''AB'', remote_data ''CD'', remote_close] ?sc)) =
             (?sc\<lparr>m_state := closed, protocol := Some p, pending_dataReceived := [],
                 pending_connectionLost := (True, Some ConnectionDone)\<rparr>,
              [protocol_dataReceived p ''AB'', protocol_dataReceived p ''CD'',
               protocol_connectionLost p (Some ConnectionDone)],
              None)"
    using u by (simp add: set_protocol_unbound)
qed

theorem buffered_delivery_on_attach_witness:
  "protocol (new_SubChannel 5 WormholeAddress (SubchannelAddress 5)) = None
   \<and> m_state (new_SubChannel 5 WormholeAddress (SubchannelAddress 5)) = open
   \<and> snd (set_protocol 7
        (fst (m_inputs (map remote_data [''AB'', ''CD''] @ [remote_close])
                (new_SubChannel 5 WormholeAddress (SubchannelAddress 5))))) =
       ([protocol_dataReceived 7 ''AB'', protocol_dataReceived 7 ''CD'',
         protocol_connectionLost 7 (Some ConnectionDone)], None)
   \<and> m_state (fst (set_protocol 7
        (fst (m_inputs (map remote_data [''AB'', ''CD''] @ [remote_close])
                (new_SubChannel 5 WormholeAddress (SubchannelAddress 5)))))) = closed"
proof -
  let ?sc = "new_SubChannel 5 WormholeAddress (SubchannelAddress 5)"
  have u: "protocol ?sc = None" and o: "m_state ?sc = open"
    and e: "pending_dataReceived ?sc = []"
    by (simp_all add: new_SubChannel_def)
  from buffered_delivery_on_attach [OF u, of 7 "[''AB'', ''CD'']"] o e u
  show ?thesis by simp
qed

text \<open>
  Claim C2. \<open>MAX_FRAME_LENGTH\<close> is \<open>2 ^ 32 - 1 - 9 - 16\<close>. On an open subchannel a
  write of at most that many bytes, so of exactly that many, returns normally and its
  only call is the manager's \<open>send_data\<close> with the payload; a write of one byte more,
  and of any longer payload, raises the assertion error before the machine gets an
  input: no call is made and the object is unchanged, in every state.
\<close>

theorem write_frame_length_limit:
  "MAX_FRAME_LENGTH = 2 ^ 32 - 1 - 9 - 16
   \<and> (m_state sc = open \<and> length data \<le> MAX_FRAME_LENGTH \<longrightarrow>
        transport_write data sc = (sc, [manager_send_data (scid sc) data], None))
   \<and> (m_state sc = open \<and> length data = MAX_FRAME_LENGTH \<longrightarrow>
        transport_write data sc = (sc, [manager_send_data (scid sc) data], None))
   \<and> (length data = MAX_FRAME_LENGTH + 1 \<longrightarrow>
        transport_write data sc = (sc, [], Some AssertionError))
   \<and> (MAX_FRAME_LENGTH < length data \<longrightarrow>
        transport_write data sc = (sc, [], Some AssertionError))"
  by (simp add: transport_write_def m_input_def send_data_def) (simp add: MAX_FRAME_LENGTH_def)

theorem write_frame_length_limit_witness:
  "m_state (new_SubChannel 5 WormholeAddress (SubchannelAddress 5)) = open
   \<and> length (replicate MAX_FRAME_LENGTH (CHR ''x'')) = MAX_FRAME_LENGTH
   \<and> transport_write (replicate MAX_FRAME_LENGTH (CHR ''x''))
        (new_SubChannel 5 WormholeAddress (SubchannelAddress 5)) =
       (new_SubChannel 5 WormholeAddress (SubchannelAddress 5),
        [manager_send_data 5 (replicate MAX_FRAME_LENGTH (CHR ''x''))], None)
   \<and> length (replicate (MAX_FRAME_LENGTH + 1) (CHR ''x'')) = MAX_FRAME_LENGTH + 1
   \<and> transport_write (replicate (MAX_FRAME_LENGTH + 1) (CHR ''x''))
        (new_SubChannel 5 WormholeAddress (SubchannelAddress 5)) =
       (new_SubChannel 5 WormholeAddress (SubchannelAddress 5), [], Some AssertionError)"
proof -
  let ?sc = "new_SubChannel 5 WormholeAddress (SubchannelAddress 5)"
  have o: "m_state ?sc = open" and i: "scid ?sc = 5"
    by (simp_all add: new_SubChannel_def)
  have l: "length (replicate MAX_FRAME_LENGTH (CHR ''x'')) = MAX_FRAME_LENGTH"
    and l1: "length (replicate (MAX_FRAME_LENGTH + 1) (CHR ''x'')) = MAX_FRAME_LENGTH + 1"
    by (simp_all only: length_replicate)
  from write_frame_length_limit [of ?sc "replicate MAX_FRAME_LENGTH (CHR ''x'')"]
       write_frame_length_limit [of ?sc "replicate (MAX_FRAME_LENGTH + 1) (CHR ''x'')"]
       o i l l1
  show ?thesis by (simp only: simp_thms)
qed

text \<open>
  Claim C3. In state \<open>closing\<close> the inputs \<open>local_data\<close> (a local write) and
  \<open>local_close\<close> (a local close) raise \<open>AlreadyClosedError\<close>, make no call on the
  manager or on anything else, and leave the object, so its state, as it was. The
  same holds for the methods that feed them: \<open>loseConnection\<close>, and \<open>write\<close> for every
  payload that passes its length check.
\<close>

theorem closing_rejects_local_calls:
  "m_state sc = closing \<longrightarrow>
     m_input (local_data data) sc = (sc, [], Some AlreadyClosedError)
   \<and> m_input local_close sc = (sc, [], Some AlreadyClosedError)
   \<and> loseConnection sc = (sc, [], Some AlreadyClosedError)
   \<and> (length data \<le> MAX_FRAME_LENGTH \<longrightarrow>
        transport_write data sc = (sc, [], Some AlreadyClosedError))"
  by (simp add: m_input_def loseConnection_def transport_write_def error_closed_write_def
        error_closed_close_def)

theorem closing_rejects_local_calls_witness:
  "m_state ((new_SubChannel 5 WormholeAddress (SubchannelAddress 5))\<lparr>m_state := closing\<rparr>) = closing
   \<and> length ''AB'' \<le> MAX_FRAME_LENGTH
   \<and> transport_write ''AB''
        ((new_SubChannel 5 WormholeAddress (SubchannelAddress 5))\<lparr>m_state := closing\<rparr>) =
       ((new_SubChannel 5 WormholeAddress (SubchannelAddress 5))\<lparr>m_state := closing\<rparr>, [],
        Some AlreadyClosedError)
   \<and> loseConnection
        ((new_SubChannel 5 WormholeAddress (SubchannelAddress 5))\<lparr>m_state := closing\<rparr>) =
       ((new_SubChannel 5 WormholeAddress (SubchannelAddress 5))\<lparr>m_state := closing\<rparr>, [],
        Some AlreadyClosedError)
   \<and> fst (loseConnection (new_SubChannel 5 WormholeAddress (SubchannelAddress 5))) =
       (new_SubChannel 5 WormholeAddress (SubchannelAddress 5))\<lparr>m_state := closing\<rparr>"
proof -
  let ?sc = "(new_SubChannel 5 WormholeAddress (SubchannelAddress 5))\<lparr>m_state := closing\<rparr>"
  have c: "m_state ?sc = closing" by simp
  have l: "length ''AB'' \<le> MAX_FRAME_LENGTH" by (simp add: MAX_FRAME_LENGTH_def)
  have r: "fst (loseConnection (new_SubChannel 5 WormholeAddress (SubchannelAddress 5))) = ?sc"
    by (simp add: loseConnection_def m_input_def new_SubChannel_def send_close_def)
  from closing_rejects_local_calls [of ?sc "''AB''"] c l r
  show ?thesis by simp
qed

text \<open>
  Claim C4. A remote close in state \<open>open\<close> makes, in this order, the manager's
  \<open>send_close\<close>, then \<open>connectionLost\<close> on the bound consumer (with none bound the close is
  recorded as pending and no call is made), then the manager's \<open>subchannel_closed\<close>, and
  the state is \<open>closed\<close>. In state \<open>closing\<close> it does the same without \<open>send_close\<close>.
\<close>

theorem remote_close_outputs:
  "(m_state sc = open \<and> protocol sc = Some p \<longrightarrow>
      m_input remote_close sc =
        (sc\<lparr>m_state := closed\<rparr>,
         [manager_send_close (scid sc), protocol_connectionLost p (Some ConnectionDone),
          manager_subchannel_closed (scid sc)], None))
   \<and> (m_state sc = open \<and> protocol sc = None \<longrightarrow>
      m_input remote_close sc =
        (sc\<lparr>m_state := closed, pending_connectionLost := (True, Some ConnectionDone)\<rparr>,
         [manager_send_close (scid sc), manager_subchannel_closed (scid sc)], None))
   \<and> (m_state sc = closing \<and> protocol sc = Some p \<longrightarrow>
      m_input remote_close sc =
        (sc\<lparr>m_state := closed\<rparr>,
         [protocol_connectionLost p (Some ConnectionDone),
          manager_subchannel_closed (scid sc)], None))
   \<and> (m_state sc = closing \<and> protocol sc = None \<longrightarrow>
      m_input remote_close sc =
        (sc\<lparr>m_state := closed, pending_connectionLost := (True, Some ConnectionDone)\<rparr>,
         [manager_subchannel_closed (scid sc)], None))"
  by (simp add: m_input_remote_close_open m_input_remote_close_closing)

theorem remote_close_outputs_witness:
  "m_input remote_close ((new_SubChannel 5 WormholeAddress (SubchannelAddress 5))\<lparr>protocol := Some 7\<rparr>) =
     ((new_SubChannel 5 WormholeAddress (SubchannelAddress 5))
        \<lparr>protocol := Some 7, m_state := closed\<rparr>,
      [manager_send_close 5, protocol_connectionLost 7 (Some ConnectionDone),
       manager_subchannel_closed 5], None)
   \<and> m_input remote_close (new_SubChannel 5 WormholeAddress (SubchannelAddress 5)) =
     ((new_SubChannel 5 WormholeAddress (SubchannelAddress 5))
        \<lparr>m_state := closed, pending_connectionLost := (True, Some ConnectionDone)\<rparr>,
      [manager_send_close 5, manager_subchannel_closed 5], None)
   \<and> m_input remote_close
       ((new_SubChannel 5 WormholeAddress (SubchannelAddress 5))
          \<lparr>protocol := Some 7, m_state := closing\<rparr>) =
     ((new_SubChannel 5 WormholeAddress (SubchannelAddress 5))
        \<lparr>protocol := Some 7, m_state := closed\<rparr>,
      [protocol_connectionLost 7 (Some ConnectionDone), manager_subchannel_closed 5], None)
   \<and> m_input remote_close
       ((new_SubChannel 5 WormholeAddress (SubchannelAddress 5))\<lparr>m_state := closing\<rparr>) =
     ((new_SubChannel 5 WormholeAddress (SubchannelAddress 5))
        \<lparr>m_state := closed, pending_connectionLost := (True, Some ConnectionDone)\<rparr>,
      [manager_subchannel_closed 5], None)"
proof -
  let ?sc = "new_SubChannel 5 WormholeAddress (SubchannelAddress 5)"
  have f: "m_state ?sc = open" "protocol ?sc = None" "scid ?sc = 5"
    by (simp_all add: new_SubChannel_def)
  from remote_close_outputs [of "?sc\<lparr>protocol := Some 7\<rparr>" 7]
       remote_close_outputs [of ?sc 7]
       remote_close_outputs [of "?sc\<lparr>protocol := Some 7, m_state := closing\<rparr>" 7]
       remote_close_outputs [of "?sc\<lparr>m_state := closing\<rparr>" 7]
       f
  show ?thesis by simp
qed

text \<open>
  Claim C8. Binding a protocol to a subchannel that has one raises the assertion error
  (not one of the module's own exception classes), makes no call and changes nothing;
  and whatever calls are made on the subchannel afterwards, the consumer bound first
  stays the bound one and a further bind fails in the same way.
\<close>

theorem single_consumer:
  "protocol sc = Some q \<longrightarrow>
     set_protocol p sc = (sc, [], Some AssertionError)
   \<and> protocol (fst (call_methods ms sc)) = Some q
   \<and> set_protocol p (fst (call_methods ms sc)) = (fst (call_methods ms sc), [], Some AssertionError)"
  by (simp add: set_protocol_bound call_methods_bound)

theorem single_consumer_witness:
  "protocol (fst (set_protocol 7 (new_SubChannel 5 WormholeAddress (SubchannelAddress 5)))) = Some 7
   \<and> snd (set_protocol 8 (fst (set_protocol 7 (new_SubChannel 5 WormholeAddress (SubchannelAddress 5)))))
       = ([], Some AssertionError)
   \<and> protocol (fst (call_methods [call_input (remote_data ''AB''), call_set_protocol 8, call_loseConnection]
        (fst (set_protocol 7 (new_SubChannel 5 WormholeAddress (SubchannelAddress 5)))))) = Some 7"
proof -
  let ?sc = "fst (set_protocol 7 (new_SubChannel 5 WormholeAddress (SubchannelAddress 5)))"
  have b: "protocol ?sc = Some 7"
    by (simp add: set_protocol_def new_SubChannel_def)
  from single_consumer [of ?sc 7 8
         "[call_input (remote_data ''AB''), call_set_protocol 8, call_loseConnection]"] b
  show ?thesis by simp
qed

text \<open>
  Claim C9, amended. Constructing a \<open>SubchannelAddress\<close> succeeds for every integer,
  whatever its sign, and for a Python boolean (an instance of the integer type); it fails
  with \<open>TypeError\<close> for a value of another type. Non-negativity is not checked.
\<close>

theorem subchannel_address_validation:
  "new_SubchannelAddress (PyInt n) = Inr (SubchannelAddress n)
   \<and> new_SubchannelAddress (PyBool b) = Inr (SubchannelAddress (if b then 1 else 0))
   \<and> new_SubchannelAddress (PyBytes bs) = Inl TypeError
   \<and> new_SubchannelAddress (PyStr s) = Inl TypeError
   \<and> new_SubchannelAddress PyNone = Inl TypeError"
  by (simp add: new_SubchannelAddress_def)

text \<open>The claim C9 as stated fails: the negative id \<open>- 1\<close> is accepted.\<close>

theorem subchannel_address_negative_counterexample:
  "new_SubchannelAddress (PyInt (- 1)) = Inr (SubchannelAddress (- 1))"
  by (simp add: new_SubchannelAddress_def)

text \<open>
  Claim C10. \<open>writeSequence\<close> is the write of the concatenation of the buffers, so the
  length check is on the sum of their lengths: a sequence whose lengths add up to more
  than \<open>MAX_FRAME_LENGTH\<close> raises the assertion error with no call made, however short
  each buffer is, and on an open subchannel a sequence within the limit makes the
  single \<open>send_data\<close> call with the concatenation.
\<close>

theorem writeSequence_is_write_of_join:
  "writeSequence iovec sc = transport_write (concat iovec) sc
   \<and> length (concat iovec) = sum_list (map length iovec)
   \<and> (MAX_FRAME_LENGTH < sum_list (map length iovec) \<longrightarrow>
        writeSequence iovec sc = (sc, [], Some AssertionError))
   \<and> (m_state sc = open \<and> sum_list (map length iovec) \<le> MAX_FRAME_LENGTH \<longrightarrow>
        writeSequence iovec sc = (sc, [manager_send_data (scid sc) (concat iovec)], None))"
  by (simp add: writeSequence_def transport_write_def length_concat m_input_def send_data_def)

theorem writeSequence_is_write_of_join_witness:
  "length (replicate MAX_FRAME_LENGTH (CHR ''x'')) \<le> MAX_FRAME_LENGTH
   \<and> length [CHR ''y''] \<le> MAX_FRAME_LENGTH
   \<and> MAX_FRAME_LENGTH < sum_list (map length [replicate MAX_FRAME_LENGTH (CHR ''x''), [CHR ''y'']])
   \<and> writeSequence [replicate MAX_FRAME_LENGTH (CHR ''x''), [CHR ''y'']]
        (new_SubChannel 5 WormholeAddress (SubchannelAddress 5)) =
       (new_SubChannel 5 WormholeAddress (SubchannelAddress 5), [], Some AssertionError)
   \<and> writeSequence [''AB'', ''CD''] (new_SubChannel 5 WormholeAddress (SubchannelAddress 5)) =
       (new_SubChannel 5 WormholeAddress (SubchannelAddress 5),
        [manager_send_data 5 ''ABCD''], None)"
proof -
  let ?sc = "new_SubChannel 5 WormholeAddress (SubchannelAddress 5)"
  let ?big = "[replicate MAX_FRAME_LENGTH (CHR ''x''), [CHR ''y'']]"
  have o: "m_state ?sc = open" and i: "scid ?sc = 5"
    by (simp_all add: new_SubChannel_def)
  have l: "sum_list (map length ?big) = MAX_FRAME_LENGTH + 1" by simp
  have m: "(1::nat) \<le> MAX_FRAME_LENGTH" "(4::nat) \<le> MAX_FRAME_LENGTH"
    by (simp_all add: MAX_FRAME_LENGTH_def)
  have a: "writeSequence ?big ?sc = (?sc, [], Some AssertionError)"
    using writeSequence_is_write_of_join [of ?big ?sc, THEN conjunct2, THEN conjunct2, THEN conjunct1] l
    by simp
  have b: "writeSequence [''AB'', ''CD''] ?sc = (?sc, [manager_send_data 5 ''ABCD''], None)"
    using writeSequence_is_write_of_join [of "[''AB'', ''CD'']" ?sc, THEN conjunct2, THEN conjunct2, THEN conjunct2]
      o i m
    by simp
  from a b l m show ?thesis by simp
qed

section \<open>Properties of the endpoints\<close>

lemma build_and_connect_unbound:
  assumes "protocol (heap w t) = None"
  shows "build_and_connect f a t w =
           (w\<lparr>heap := (heap w)(t := fst (set_protocol (f a) (heap w t))),
              trace := trace w @ [factory_buildProtocol a] @
                       fst (snd (set_protocol (f a) (heap w t))) @
                       [protocol_makeConnection (f a) t]\<rparr>,
            f a, None)"
  using assms
  by (simp add: build_and_connect_def heap_set_protocol_def log_def set_protocol_unbound Let_def)

lemma build_and_connect_bound:
  assumes "protocol (heap w t) = Some q"
  shows "build_and_connect f a t w =
           (w\<lparr>trace := trace w @ [factory_buildProtocol a]\<rparr>, f a, Some AssertionError)"
  using assms
  by (simp add: build_and_connect_def heap_set_protocol_def log_def set_protocol_bound Let_def)

lemma ce_connect_used:
  "ce_once ep \<Longrightarrow> ce_connect f (ep, w) = ((ep, w), errback SingleUseEndpointError)"
  by (simp add: ce_connect_def)

lemma listen_used:
  "le_once ep \<Longrightarrow> listen f (ep, w) = ((ep, w), errback SingleUseEndpointError)"
  by (simp add: listen_def)

lemma ce_connect_resume_once:
  "ce_once (fst (fst (ce_connect_resume r f (ep, w)))) = ce_once ep"
  by (simp add: ce_connect_resume_def split: outcome.splits prod.splits option.splits)

lemma ce_connect_sets_once:
  "ce_once (fst (fst (ce_connect f (ep, w))))"
  by (simp add: ce_connect_def when_fired_def Let_def ce_connect_resume_def
        split: outcome.splits prod.splits option.splits)

lemma resume_all_preserves:
  assumes "\<And>k s. g (fst (body k s)) = g s"
  shows "g (fst (resume_all body ks s)) = g s"
proof (induction ks arbitrary: s)
  case Nil
  then show ?case by simp
next
  case (Cons k ks)
  obtain s1 d where r: "body k s = (s1, d)" by (cases "body k s")
  obtain s2 ds where r2: "resume_all body ks s1 = (s2, ds)" by (cases "resume_all body ks s1")
  from assms [of k s] r have "g s1 = g s" by simp
  with Cons.IH [of s1] r r2 show ?case by simp
qed

lemma ce_main_channel_once:
  "ce_once (fst (fst (ce_main_channel r (ep, w)))) = ce_once ep"
proof -
  have "\<And>k s. (ce_once \<circ> fst) (fst (ce_connect_resume r k s)) = (ce_once \<circ> fst) s"
    using ce_connect_resume_once by (simp add: split_paired_all)
  from resume_all_preserves [of "ce_once \<circ> fst" "ce_connect_resume r", OF this]
  show ?thesis
    by (simp add: ce_main_channel_def split: prod.splits)
qed

lemma listen_loop_once:
  "le_once (fst (fst (listen_loop (ep, w)))) = le_once ep"
proof (induction "(ep, w)" arbitrary: ep w rule: listen_loop.induct)
  case (1 ep w)
  show ?case
  proof (cases "pending_opens ep = []")
    case True
    then show ?thesis by (simp add: listen_loop.simps)
  next
    case False
    let ?ep1 = "ep\<lparr>pending_opens := tl (pending_opens ep)\<rparr>"
    obtain w1 exc where c: "le_connect (fst (hd (pending_opens ep))) (snd (hd (pending_opens ep))) ?ep1 w = (w1, exc)"
      by (cases "le_connect (fst (hd (pending_opens ep))) (snd (hd (pending_opens ep))) ?ep1 w")
    show ?thesis
    proof (cases exc)
      case None
      with False c "1.hyps" [OF False refl refl c [symmetric]]
      show ?thesis by (simp add: listen_loop.simps [of ep w] Let_def)
    next
      case (Some e)
      with False c show ?thesis by (simp add: listen_loop.simps [of ep w] Let_def)
    qed
  qed
qed

lemma listen_resume_once:
  "le_once (fst (fst (listen_resume r f (ep, w)))) = le_once ep"
proof (cases r)
  case ready
  obtain ep1 w1 exc where l: "listen_loop (ep\<lparr>le_factory := Some f\<rparr>, w) = ((ep1, w1), exc)"
    by (metis surj_pair)
  with listen_loop_once [of "ep\<lparr>le_factory := Some f\<rparr>" w] have "le_once ep1 = le_once ep"
    by simp
  with ready l show ?thesis
    by (simp add: listen_resume_def split: option.splits)
next
  case (failed x)
  then show ?thesis by (simp add: listen_resume_def)
qed

lemma listen_sets_once: "le_once (fst (fst (listen f (ep, w))))"
proof (cases "le_once ep")
  case True
  then show ?thesis by (simp add: listen_def)
next
  case False
  show ?thesis
  proof (cases "obs_result (le_wait_for_main_channel ep)")
    case None
    with False show ?thesis by (simp add: listen_def when_fired_def Let_def)
  next
    case (Some r)
    with False listen_resume_once [of r f "ep\<lparr>le_once := True\<rparr>" w]
    show ?thesis by (simp add: listen_def when_fired_def Let_def)
  qed
qed

lemma le_main_channel_once:
  "le_once (fst (fst (le_main_channel r (ep, w)))) = le_once ep"
proof -
  have "\<And>k s. (le_once \<circ> fst) (fst (listen_resume r k s)) = (le_once \<circ> fst) s"
    using listen_resume_once by (simp add: split_paired_all)
  from resume_all_preserves [of "le_once \<circ> fst" "listen_resume r", OF this]
  show ?thesis
    by (simp add: le_main_channel_def split: prod.splits)
qed

lemma got_open_once:
  "le_once (fst (fst (got_open t a (ep, w)))) = le_once ep"
  by (simp add: got_open_def split: prod.splits)

lemma ce_connect_suspends:
  "\<not> ce_once ep \<Longrightarrow> obs_result (ce_wait_for_main_channel ep) = None \<Longrightarrow>
   ce_connect f (ep, w) =
     ((ep\<lparr>ce_once := True,
          ce_wait_for_main_channel :=
            (ce_wait_for_main_channel ep)
              \<lparr>observers := observers (ce_wait_for_main_channel ep) @ [f]\<rparr>\<rparr>, w),
      waiting)"
  by (simp add: ce_connect_def when_fired_def Let_def)

lemma listen_suspends:
  "\<not> le_once ep \<Longrightarrow> obs_result (le_wait_for_main_channel ep) = None \<Longrightarrow>
   listen f (ep, w) =
     ((ep\<lparr>le_once := True,
          le_wait_for_main_channel :=
            (le_wait_for_main_channel ep)
              \<lparr>observers := observers (le_wait_for_main_channel ep) @ [f]\<rparr>\<rparr>, w),
      waiting)"
  by (simp add: listen_def when_fired_def Let_def)

text \<open>
  Claim C5. The single-use guard of \<open>ControlEndpoint.connect\<close> and of
  \<open>SubchannelListenerEndpoint.listen\<close> is checked before the wait for readiness. A call on
  an endpoint whose guard is set fails with \<open>SingleUseEndpointError\<close> and leaves the
  endpoint and the world exactly as they were: no waiter is added, none is removed and
  no call is made, so whatever the first call goes on to yield is what it yields without
  the second. Every call sets the guard, also one that suspends on a signal that has
  not settled, so the call after it fails while the first still waits; and settling the
  signal or an incoming open never clears the guard.
\<close>

theorem single_use_endpoints:
  "(ce_once ep \<longrightarrow> ce_connect f (ep, w) = ((ep, w), errback SingleUseEndpointError))
   \<and> ce_connect f' (fst (ce_connect f (ep, w))) =
       (fst (ce_connect f (ep, w)), errback SingleUseEndpointError)
   \<and> (\<not> ce_once ep \<and> obs_result (ce_wait_for_main_channel ep) = None \<longrightarrow>
        snd (ce_connect f (ep, w)) = waiting
        \<and> observers (ce_wait_for_main_channel (fst (fst (ce_connect f (ep, w))))) =
            observers (ce_wait_for_main_channel ep) @ [f]
        \<and> snd (fst (ce_connect f (ep, w))) = w)
   \<and> ce_once (fst (fst (ce_main_channel r (ep, w)))) = ce_once ep
   \<and> (le_once lp \<longrightarrow> listen f (lp, w) = ((lp, w), errback SingleUseEndpointError))
   \<and> listen f' (fst (listen f (lp, w))) =
       (fst (listen f (lp, w)), errback SingleUseEndpointError)
   \<and> (\<not> le_once lp \<and> obs_result (le_wait_for_main_channel lp) = None \<longrightarrow>
        snd (listen f (lp, w)) = waiting
        \<and> observers (le_wait_for_main_channel (fst (fst (listen f (lp, w))))) =
            observers (le_wait_for_main_channel lp) @ [f]
        \<and> snd (fst (listen f (lp, w))) = w)
   \<and> le_once (fst (fst (le_main_channel r (lp, w)))) = le_once lp
   \<and> le_once (fst (fst (got_open t a (lp, w)))) = le_once lp"
proof -
  have c2: "ce_connect f' (fst (ce_connect f (ep, w))) =
       (fst (ce_connect f (ep, w)), errback SingleUseEndpointError)"
  proof -
    obtain ep1 w1 where s: "fst (ce_connect f (ep, w)) = (ep1, w1)"
      by (cases "fst (ce_connect f (ep, w))")
    with ce_connect_sets_once [of f ep w] have "ce_once ep1" by simp
    with s show ?thesis by (simp add: ce_connect_used)
  qed
  have l2: "listen f' (fst (listen f (lp, w))) =
       (fst (listen f (lp, w)), errback SingleUseEndpointError)"
  proof -
    obtain lp1 w1 where s: "fst (listen f (lp, w)) = (lp1, w1)"
      by (cases "fst (listen f (lp, w))")
    with listen_sets_once [of f lp w] have "le_once lp1" by simp
    with s show ?thesis by (simp add: listen_used)
  qed
  show ?thesis
    by (intro conjI impI c2 l2 ce_main_channel_once le_main_channel_once got_open_once)
       (simp_all add: ce_connect_used listen_used ce_connect_suspends listen_suspends)
qed

lemma listen_loop_Nil:
  "pending_opens ep = [] \<Longrightarrow> listen_loop (ep, w) = ((ep, w), None)"
  by (simp add: listen_loop.simps)

lemma listen_loop_Cons:
  "pending_opens ep = (t, a) # q \<Longrightarrow>
   listen_loop (ep, w) =
     (case le_connect t a (ep\<lparr>pending_opens := q\<rparr>) w of
        (w1, Some e) \<Rightarrow> ((ep\<lparr>pending_opens := q\<rparr>, w1), Some e)
      | (w1, None) \<Rightarrow> listen_loop (ep\<lparr>pending_opens := q\<rparr>, w1))"
  by (simp add: listen_loop.simps [of ep w] Let_def)

theorem single_use_endpoints_witness:
  "\<not> ce_once (new_ControlEndpoint (SubchannelAddress 0) 0)
   \<and> obs_result (ce_wait_for_main_channel (new_ControlEndpoint (SubchannelAddress 0) 0)) = None
   \<and> snd (ce_connect (\<lambda>a. 7)
        (new_ControlEndpoint (SubchannelAddress 0) 0,
         \<lparr>heap = (\<lambda>r. new_SubChannel 0 WormholeAddress (SubchannelAddress 0)), next_ref = 1,
          trace = [], mgr_ids = (\<lambda>k. 2 * int k + 1), mgr_allocated = 0\<rparr>)) = waiting
   \<and> snd (ce_connect (\<lambda>a. 8) (fst (ce_connect (\<lambda>a. 7)
        (new_ControlEndpoint (SubchannelAddress 0) 0,
         \<lparr>heap = (\<lambda>r. new_SubChannel 0 WormholeAddress (SubchannelAddress 0)), next_ref = 1,
          trace = [], mgr_ids = (\<lambda>k. 2 * int k + 1), mgr_allocated = 0\<rparr>)))) =
       errback SingleUseEndpointError
   \<and> snd (ce_main_channel ready (fst (ce_connect (\<lambda>a. 8) (fst (ce_connect (\<lambda>a. 7)
        (new_ControlEndpoint (SubchannelAddress 0) 0,
         \<lparr>heap = (\<lambda>r. new_SubChannel 0 WormholeAddress (SubchannelAddress 0)), next_ref = 1,
          trace = [], mgr_ids = (\<lambda>k. 2 * int k + 1), mgr_allocated = 0\<rparr>)))))) = [fired 7]
   \<and> \<not> le_once (new_SubchannelListenerEndpoint WormholeAddress)
   \<and> snd (listen (\<lambda>a. 7)
        (new_SubchannelListenerEndpoint WormholeAddress,
         \<lparr>heap = (\<lambda>r. new_SubChannel 0 WormholeAddress (SubchannelAddress 0)), next_ref = 1,
          trace = [], mgr_ids = (\<lambda>k. 2 * int k + 1), mgr_allocated = 0\<rparr>)) = waiting
   \<and> snd (listen (\<lambda>a. 8) (fst (listen (\<lambda>a. 7)
        (new_SubchannelListenerEndpoint WormholeAddress,
         \<lparr>heap = (\<lambda>r. new_SubChannel 0 WormholeAddress (SubchannelAddress 0)), next_ref = 1,
          trace = [], mgr_ids = (\<lambda>k. 2 * int k + 1), mgr_allocated = 0\<rparr>)))) =
       errback SingleUseEndpointError
   \<and> snd (le_main_channel ready (fst (listen (\<lambda>a. 8) (fst (listen (\<lambda>a. 7)
        (new_SubchannelListenerEndpoint WormholeAddress,
         \<lparr>heap = (\<lambda>r. new_SubChannel 0 WormholeAddress (SubchannelAddress 0)), next_ref = 1,
          trace = [], mgr_ids = (\<lambda>k. 2 * int k + 1), mgr_allocated = 0\<rparr>)))))) =
       [fired (SubchannelListeningPort WormholeAddress)]"
proof -
  let ?w = "\<lparr>heap = (\<lambda>r. new_SubChannel 0 WormholeAddress (SubchannelAddress 0)), next_ref = 1,
          trace = [], mgr_ids = (\<lambda>k. 2 * int k + 1), mgr_allocated = 0\<rparr>"
  let ?ep = "new_ControlEndpoint (SubchannelAddress 0) 0"
  let ?lp = "new_SubchannelListenerEndpoint WormholeAddress"
  note inst = single_use_endpoints [of ?ep "\<lambda>a. 7" ?w "\<lambda>a. 8" ready ?lp 0 "SubchannelAddress 0"]
  have c0: "\<not> ce_once ?ep" "obs_result (ce_wait_for_main_channel ?ep) = None"
    by (simp_all add: new_ControlEndpoint_def new_OneShotObserver_def)
  have l0: "\<not> le_once ?lp" "obs_result (le_wait_for_main_channel ?lp) = None"
    by (simp_all add: new_SubchannelListenerEndpoint_def new_OneShotObserver_def)
  have c1: "snd (ce_connect (\<lambda>a. 7) (?ep, ?w)) = waiting"
    using inst c0 by simp
  have c2: "ce_connect (\<lambda>a. 8) (fst (ce_connect (\<lambda>a. 7) (?ep, ?w))) =
              (fst (ce_connect (\<lambda>a. 7) (?ep, ?w)), errback SingleUseEndpointError)"
    using inst by simp
  have l1: "snd (listen (\<lambda>a. 7) (?lp, ?w)) = waiting"
    using inst l0 by simp
  have l2: "listen (\<lambda>a. 8) (fst (listen (\<lambda>a. 7) (?lp, ?w))) =
              (fst (listen (\<lambda>a. 7) (?lp, ?w)), errback SingleUseEndpointError)"
    using inst by simp
  have c3: "snd (ce_main_channel ready (fst (ce_connect (\<lambda>a. 7) (?ep, ?w)))) = [fired 7]"
    by (simp add: ce_connect_suspends c0 ce_main_channel_def settle_def
          new_ControlEndpoint_def new_OneShotObserver_def ce_connect_resume_def
          build_and_connect_def heap_set_protocol_def log_def set_protocol_def
          new_SubChannel_def Let_def)
  have l3: "snd (le_main_channel ready (fst (listen (\<lambda>a. 7) (?lp, ?w)))) =
              [fired (SubchannelListeningPort WormholeAddress)]"
    by (simp add: listen_suspends l0 le_main_channel_def settle_def
          new_SubchannelListenerEndpoint_def new_OneShotObserver_def listen_resume_def
          listen_loop_Nil)
  show ?thesis
    by (simp only: c2 l2 fst_conv snd_conv c1 l1 c3 l3 c0 l0 simp_thms)
qed

lemma co_connect_resume_ready:
  "co_connect_resume ready f (ep, w) =
     ((ep,
       w\<lparr>heap := (heap w)(next_ref w :=
                (new_SubChannel (mgr_ids w (mgr_allocated w)) (co_host_addr ep)
                   (SubchannelAddress (mgr_ids w (mgr_allocated w))))
                \<lparr>protocol := Some (f (SubchannelAddress (mgr_ids w (mgr_allocated w))))\<rparr>),
         next_ref := Suc (next_ref w),
         trace := trace w @
           [manager_allocate_subchannel_id,
            manager_send_open (mgr_ids w (mgr_allocated w)),
            manager_subchannel_local_open (mgr_ids w (mgr_allocated w)),
            factory_buildProtocol (SubchannelAddress (mgr_ids w (mgr_allocated w))),
            protocol_makeConnection (f (SubchannelAddress (mgr_ids w (mgr_allocated w))))
              (next_ref w)],
         mgr_allocated := Suc (mgr_allocated w)\<rparr>),
      fired (f (SubchannelAddress (mgr_ids w (mgr_allocated w)))))"
  by (simp add: co_connect_resume_def allocate_subchannel_id_def alloc_SubChannel_def
        build_and_connect_def heap_set_protocol_def log_def set_protocol_def
        new_SubChannel_def Let_def)

lemma co_connect_resume_failed:
  "co_connect_resume (failed x) f (ep, w) = ((ep, w), errback (ReadinessFailure x))"
  by (simp add: co_connect_resume_def)

lemma co_connect_suspends:
  "obs_result (co_wait_for_main_channel ep) = None \<Longrightarrow>
   co_connect f (ep, w) =
     ((ep\<lparr>co_wait_for_main_channel :=
            (co_wait_for_main_channel ep)
              \<lparr>observers := observers (co_wait_for_main_channel ep) @ [f]\<rparr>\<rparr>, w),
      waiting)"
  by (simp add: co_connect_def when_fired_def)

lemma co_connect_settled:
  "obs_result (co_wait_for_main_channel ep) = Some r \<Longrightarrow>
   co_connect f (ep, w) = co_connect_resume r f (ep, w)"
  by (simp add: co_connect_def when_fired_def)

lemma resume_all_co_ready:
  "resume_all (co_connect_resume ready) ks (ep, w) =
     ((ep,
       fold (\<lambda>f w. snd (fst (co_connect_resume ready f (ep, w)))) ks w),
      map (\<lambda>k. fired ((ks ! k) (SubchannelAddress (mgr_ids w (mgr_allocated w + k)))))
        [0..<length ks])"
proof (induction ks arbitrary: w)
  case Nil
  then show ?case by simp
next
  case (Cons f ks)
  define w1 where "w1 = snd (fst (co_connect_resume ready f (ep, w)))"
  have m: "mgr_ids w1 = mgr_ids w" "mgr_allocated w1 = Suc (mgr_allocated w)"
    by (simp_all add: w1_def co_connect_resume_ready)
  have s: "co_connect_resume ready f (ep, w) =
             ((ep, w1), fired (f (SubchannelAddress (mgr_ids w (mgr_allocated w)))))"
    by (simp add: w1_def co_connect_resume_ready)
  have u: "[0..<Suc (length ks)] = 0 # map Suc [0..<length ks]"
    by (simp add: upt_conv_Cons map_Suc_upt del: upt_Suc)
  show ?case
    by (simp add: s Cons.IH [of w1] m u comp_def del: upt_Suc)
qed

lemma fold_co_trace:
  "trace (fold (\<lambda>f w. snd (fst (co_connect_resume ready f (ep, w)))) ks w) =
     trace w @
     concat (map (\<lambda>k.
        [manager_allocate_subchannel_id,
         manager_send_open (mgr_ids w (mgr_allocated w + k)),
         manager_subchannel_local_open (mgr_ids w (mgr_allocated w + k)),
         factory_buildProtocol (SubchannelAddress (mgr_ids w (mgr_allocated w + k))),
         protocol_makeConnection
           ((ks ! k) (SubchannelAddress (mgr_ids w (mgr_allocated w + k))))
           (next_ref w + k)])
       [0..<length ks])"
proof (induction ks arbitrary: w)
  case Nil
  then show ?case by simp
next
  case (Cons f ks)
  define w1 where "w1 = snd (fst (co_connect_resume ready f (ep, w)))"
  have m: "mgr_ids w1 = mgr_ids w" "mgr_allocated w1 = Suc (mgr_allocated w)"
    "next_ref w1 = Suc (next_ref w)"
    "trace w1 = trace w @
           [manager_allocate_subchannel_id,
            manager_send_open (mgr_ids w (mgr_allocated w)),
            manager_subchannel_local_open (mgr_ids w (mgr_allocated w)),
            factory_buildProtocol (SubchannelAddress (mgr_ids w (mgr_allocated w))),
            protocol_makeConnection (f (SubchannelAddress (mgr_ids w (mgr_allocated w))))
              (next_ref w)]"
    by (simp_all add: w1_def co_connect_resume_ready)
  have u: "[0..<Suc (length ks)] = 0 # map Suc [0..<length ks]"
    by (simp add: upt_conv_Cons map_Suc_upt del: upt_Suc)
  have "fold (\<lambda>f w. snd (fst (co_connect_resume ready f (ep, w)))) (f # ks) w =
        fold (\<lambda>f w. snd (fst (co_connect_resume ready f (ep, w)))) ks w1"
    by (simp add: w1_def)
  then show ?case
    by (simp add: Cons.IH [of w1] m u comp_def del: upt_Suc)
qed

lemma resume_all_co_failed:
  "resume_all (co_connect_resume (failed x)) ks (ep, w) =
     ((ep, w), map (\<lambda>f. errback (ReadinessFailure x)) ks)"
  by (induction ks) (simp_all add: co_connect_resume_failed)

lemma co_main_channel_ready:
  "obs_result (co_wait_for_main_channel ep) = None \<Longrightarrow>
   co_main_channel ready (ep, w) =
     ((ep\<lparr>co_wait_for_main_channel :=
            (co_wait_for_main_channel ep)\<lparr>obs_result := Some ready, observers := []\<rparr>\<rparr>,
       fold (\<lambda>f w. snd (fst (co_connect_resume ready f
                (ep\<lparr>co_wait_for_main_channel :=
            (co_wait_for_main_channel ep)\<lparr>obs_result := Some ready, observers := []\<rparr>\<rparr>, w))))
         (observers (co_wait_for_main_channel ep)) w),
      map (\<lambda>k. fired ((observers (co_wait_for_main_channel ep) ! k)
                    (SubchannelAddress (mgr_ids w (mgr_allocated w + k)))))
        [0..<length (observers (co_wait_for_main_channel ep))])"
  by (simp add: co_main_channel_def settle_def resume_all_co_ready)

lemma co_main_channel_failed:
  "obs_result (co_wait_for_main_channel ep) = None \<Longrightarrow>
   co_main_channel (failed x) (ep, w) =
     ((ep\<lparr>co_wait_for_main_channel :=
            (co_wait_for_main_channel ep)\<lparr>obs_result := Some (failed x), observers := []\<rparr>\<rparr>,
       w),
      map (\<lambda>f. errback (ReadinessFailure x)) (observers (co_wait_for_main_channel ep)))"
  by (simp add: co_main_channel_def settle_def resume_all_co_failed)

text \<open>
  Claim C6. A \<open>connect\<close> on the connector endpoint made while the readiness signal has
  not settled suspends and leaves the world as it was: it makes no call, so none of
  \<open>allocate_subchannel_id\<close>. With the signal settled to ready, a call makes exactly the
  calls \<open>allocate_subchannel_id\<close>, \<open>send_open\<close> with the id allocated,
  \<open>subchannel_local_open\<close> for the new subchannel of that id, \<open>buildProtocol\<close> with its peer
  address, and \<open>makeConnection\<close> on the protocol built, in this order; the new subchannel has
  that protocol bound, and the Deferred fires with it. The calls suspended when the
  signal settles to ready resume in the order they were made, each with these five
  calls and an id of its own. When the signal fails, no call is made and every Deferred
  fails with the readiness failure.
\<close>

theorem connector_connect_order:
  "(obs_result (co_wait_for_main_channel ep) = None \<longrightarrow>
      snd (co_connect f (ep, w)) = waiting
      \<and> snd (fst (co_connect f (ep, w))) = w
      \<and> observers (co_wait_for_main_channel (fst (fst (co_connect f (ep, w))))) =
          observers (co_wait_for_main_channel ep) @ [f])
   \<and> (obs_result (co_wait_for_main_channel ep) = Some ready \<longrightarrow>
      co_connect f (ep, w) =
        ((ep,
          w\<lparr>heap := (heap w)(next_ref w :=
                (new_SubChannel (mgr_ids w (mgr_allocated w)) (co_host_addr ep)
                   (SubchannelAddress (mgr_ids w (mgr_allocated w))))
                \<lparr>protocol := Some (f (SubchannelAddress (mgr_ids w (mgr_allocated w))))\<rparr>),
            next_ref := Suc (next_ref w),
            trace := trace w @
              [manager_allocate_subchannel_id,
               manager_send_open (mgr_ids w (mgr_allocated w)),
               manager_subchannel_local_open (mgr_ids w (mgr_allocated w)),
               factory_buildProtocol (SubchannelAddress (mgr_ids w (mgr_allocated w))),
               protocol_makeConnection (f (SubchannelAddress (mgr_ids w (mgr_allocated w))))
                 (next_ref w)],
            mgr_allocated := Suc (mgr_allocated w)\<rparr>),
         fired (f (SubchannelAddress (mgr_ids w (mgr_allocated w)))))
      \<and> count_list (trace (snd (fst (co_connect f (ep, w))))) manager_allocate_subchannel_id =
          Suc (count_list (trace w) manager_allocate_subchannel_id))
   \<and> (obs_result (co_wait_for_main_channel ep) = None \<longrightarrow>
      trace (snd (fst (co_main_channel ready (ep, w)))) =
        trace w @
        concat (map (\<lambda>k.
           [manager_allocate_subchannel_id,
            manager_send_open (mgr_ids w (mgr_allocated w + k)),
            manager_subchannel_local_open (mgr_ids w (mgr_allocated w + k)),
            factory_buildProtocol (SubchannelAddress (mgr_ids w (mgr_allocated w + k))),
            protocol_makeConnection
              ((observers (co_wait_for_main_channel ep) ! k)
                 (SubchannelAddress (mgr_ids w (mgr_allocated w + k))))
              (next_ref w + k)])
          [0..<length (observers (co_wait_for_main_channel ep))])
      \<and> snd (co_main_channel ready (ep, w)) =
          map (\<lambda>k. fired ((observers (co_wait_for_main_channel ep) ! k)
                    (SubchannelAddress (mgr_ids w (mgr_allocated w + k)))))
            [0..<length (observers (co_wait_for_main_channel ep))]
      \<and> snd (fst (co_main_channel (failed x) (ep, w))) = w
      \<and> snd (co_main_channel (failed x) (ep, w)) =
          map (\<lambda>f. errback (ReadinessFailure x)) (observers (co_wait_for_main_channel ep)))
   \<and> (obs_result (co_wait_for_main_channel ep) = Some (failed x) \<longrightarrow>
      co_connect f (ep, w) = ((ep, w), errback (ReadinessFailure x)))"
proof (intro conjI impI)
  assume "obs_result (co_wait_for_main_channel ep) = None"
  then show "trace (snd (fst (co_main_channel ready (ep, w)))) =
        trace w @
        concat (map (\<lambda>k.
           [manager_allocate_subchannel_id,
            manager_send_open (mgr_ids w (mgr_allocated w + k)),
            manager_subchannel_local_open (mgr_ids w (mgr_allocated w + k)),
            factory_buildProtocol (SubchannelAddress (mgr_ids w (mgr_allocated w + k))),
            protocol_makeConnection
              ((observers (co_wait_for_main_channel ep) ! k)
                 (SubchannelAddress (mgr_ids w (mgr_allocated w + k))))
              (next_ref w + k)])
          [0..<length (observers (co_wait_for_main_channel ep))])"
    by (simp add: co_main_channel_ready fold_co_trace)
qed (simp_all add: co_connect_suspends co_connect_settled co_connect_resume_ready
        co_connect_resume_failed co_main_channel_ready co_main_channel_failed)

theorem connector_connect_order_witness:
  "obs_result (co_wait_for_main_channel (new_SubchannelConnectorEndpoint WormholeAddress)) = None
   \<and> co_connect (\<lambda>a. 7)
        (new_SubchannelConnectorEndpoint WormholeAddress,
         \<lparr>heap = (\<lambda>r. new_SubChannel 0 WormholeAddress (SubchannelAddress 0)), next_ref = 1,
          trace = [], mgr_ids = (\<lambda>k. 2 * int k + 1), mgr_allocated = 0\<rparr>) =
       (((new_SubchannelConnectorEndpoint WormholeAddress)
           \<lparr>co_wait_for_main_channel := \<lparr>obs_result = None, observers = [\<lambda>a. 7]\<rparr>\<rparr>,
         \<lparr>heap = (\<lambda>r. new_SubChannel 0 WormholeAddress (SubchannelAddress 0)), next_ref = 1,
          trace = [], mgr_ids = (\<lambda>k. 2 * int k + 1), mgr_allocated = 0\<rparr>),
        waiting)
   \<and> co_connect (\<lambda>a. 9)
        ((new_SubchannelConnectorEndpoint WormholeAddress)
           \<lparr>co_wait_for_main_channel := \<lparr>obs_result = Some (failed 4), observers = []\<rparr>\<rparr>,
         \<lparr>heap = (\<lambda>r. new_SubChannel 0 WormholeAddress (SubchannelAddress 0)), next_ref = 1,
          trace = [], mgr_ids = (\<lambda>k. 2 * int k + 1), mgr_allocated = 0\<rparr>) =
       (((new_SubchannelConnectorEndpoint WormholeAddress)
           \<lparr>co_wait_for_main_channel := \<lparr>obs_result = Some (failed 4), observers = []\<rparr>\<rparr>,
         \<lparr>heap = (\<lambda>r. new_SubChannel 0 WormholeAddress (SubchannelAddress 0)), next_ref = 1,
          trace = [], mgr_ids = (\<lambda>k. 2 * int k + 1), mgr_allocated = 0\<rparr>),
        errback (ReadinessFailure 4))
   \<and> trace (snd (fst (co_main_channel ready
        ((new_SubchannelConnectorEndpoint WormholeAddress)
           \<lparr>co_wait_for_main_channel := \<lparr>obs_result = None, observers = [\<lambda>a. 7]\<rparr>\<rparr>,
         \<lparr>heap = (\<lambda>r. new_SubChannel 0 WormholeAddress (SubchannelAddress 0)), next_ref = 1,
          trace = [], mgr_ids = (\<lambda>k. 2 * int k + 1), mgr_allocated = 0\<rparr>)))) =
       [manager_allocate_subchannel_id, manager_send_open 1, manager_subchannel_local_open 1,
        factory_buildProtocol (SubchannelAddress 1), protocol_makeConnection 7 1]
   \<and> snd (co_main_channel ready
        ((new_SubchannelConnectorEndpoint WormholeAddress)
           \<lparr>co_wait_for_main_channel := \<lparr>obs_result = None, observers = [\<lambda>a. 7]\<rparr>\<rparr>,
         \<lparr>heap = (\<lambda>r. new_SubChannel 0 WormholeAddress (SubchannelAddress 0)), next_ref = 1,
          trace = [], mgr_ids = (\<lambda>k. 2 * int k + 1), mgr_allocated = 0\<rparr>)) = [fired 7]
   \<and> trace (snd (fst (co_connect (\<lambda>a. 9)
        ((new_SubchannelConnectorEndpoint WormholeAddress)
           \<lparr>co_wait_for_main_channel := \<lparr>obs_result = Some ready, observers = []\<rparr>\<rparr>,
         \<lparr>heap = (\<lambda>r. new_SubChannel 0 WormholeAddress (SubchannelAddress 0)), next_ref = 2,
          trace = [], mgr_ids = (\<lambda>k. 2 * int k + 1), mgr_allocated = 1\<rparr>)))) =
       [manager_allocate_subchannel_id, manager_send_open 3, manager_subchannel_local_open 3,
        factory_buildProtocol (SubchannelAddress 3), protocol_makeConnection 9 2]
   \<and> snd (co_connect (\<lambda>a. 9)
        ((new_SubchannelConnectorEndpoint WormholeAddress)
           \<lparr>co_wait_for_main_channel := \<lparr>obs_result = Some ready, observers = []\<rparr>\<rparr>,
         \<lparr>heap = (\<lambda>r. new_SubChannel 0 WormholeAddress (SubchannelAddress 0)), next_ref = 2,
          trace = [], mgr_ids = (\<lambda>k. 2 * int k + 1), mgr_allocated = 1\<rparr>)) = fired 9"
proof -
  let ?w = "\<lparr>heap = (\<lambda>r. new_SubChannel 0 WormholeAddress (SubchannelAddress 0)), next_ref = 1,
          trace = [], mgr_ids = (\<lambda>k. 2 * int k + 1), mgr_allocated = 0\<rparr>"
  let ?w2 = "\<lparr>heap = (\<lambda>r. new_SubChannel 0 WormholeAddress (SubchannelAddress 0)), next_ref = 2,
          trace = [], mgr_ids = (\<lambda>k. 2 * int k + 1), mgr_allocated = 1\<rparr>"
  let ?ep = "new_SubchannelConnectorEndpoint WormholeAddress"
  let ?ep1 = "?ep\<lparr>co_wait_for_main_channel := \<lparr>obs_result = None, observers = [\<lambda>a. 7]\<rparr>\<rparr>"
  let ?ep2 = "?ep\<lparr>co_wait_for_main_channel := \<lparr>obs_result = Some ready, observers = []\<rparr>\<rparr>"
  have p0: "obs_result (co_wait_for_main_channel ?ep) = None"
    and o0: "observers (co_wait_for_main_channel ?ep) = []"
    by (simp_all add: new_SubchannelConnectorEndpoint_def new_OneShotObserver_def)
  have p1: "obs_result (co_wait_for_main_channel ?ep1) = None"
    and o1: "observers (co_wait_for_main_channel ?ep1) = [\<lambda>a. 7]"
    by simp_all
  have p2: "obs_result (co_wait_for_main_channel ?ep2) = Some ready" by simp
  let ?ep3 = "?ep\<lparr>co_wait_for_main_channel := \<lparr>obs_result = Some (failed 4), observers = []\<rparr>\<rparr>"
  have p3: "obs_result (co_wait_for_main_channel ?ep3) = Some (failed 4)" by simp
  from connector_connect_order [of ?ep "\<lambda>a. 7" ?w 0, THEN conjunct1, rule_format, OF p0]
  have "snd (co_connect (\<lambda>a. 7) (?ep, ?w)) = waiting"
    and "snd (fst (co_connect (\<lambda>a. 7) (?ep, ?w))) = ?w"
    and "observers (co_wait_for_main_channel (fst (fst (co_connect (\<lambda>a. 7) (?ep, ?w))))) =
           [\<lambda>a. 7]"
    by (simp_all add: o0)
  moreover have "fst (fst (co_connect (\<lambda>a. 7) (?ep, ?w))) =
       ?ep\<lparr>co_wait_for_main_channel :=
             (co_wait_for_main_channel (fst (fst (co_connect (\<lambda>a. 7) (?ep, ?w)))))\<rparr>"
    by (simp add: co_connect_def when_fired_def new_SubchannelConnectorEndpoint_def
          new_OneShotObserver_def)
  moreover have "obs_result (co_wait_for_main_channel (fst (fst (co_connect (\<lambda>a. 7) (?ep, ?w))))) = None"
    by (simp add: co_connect_def when_fired_def new_SubchannelConnectorEndpoint_def
          new_OneShotObserver_def)
  ultimately have a: "co_connect (\<lambda>a. 7) (?ep, ?w) = ((?ep1, ?w), waiting)"
    by (simp add: co_connect_def when_fired_def new_SubchannelConnectorEndpoint_def
          new_OneShotObserver_def)
  from connector_connect_order [of ?ep3 "\<lambda>a. 9" ?w 4, THEN conjunct2, THEN conjunct2,
         THEN conjunct2, rule_format, OF p3]
  have f: "co_connect (\<lambda>a. 9) (?ep3, ?w) = ((?ep3, ?w), errback (ReadinessFailure 4))" .
  from connector_connect_order [of ?ep1 "\<lambda>a. 7" ?w 0, THEN conjunct2, THEN conjunct2,
         THEN conjunct1, rule_format, OF p1]
  have b: "trace (snd (fst (co_main_channel ready (?ep1, ?w)))) =
             [manager_allocate_subchannel_id, manager_send_open 1,
              manager_subchannel_local_open 1,
              factory_buildProtocol (SubchannelAddress 1), protocol_makeConnection 7 1]"
    and c: "snd (co_main_channel ready (?ep1, ?w)) = [fired 7]"
    by (simp_all add: o1)
  from connector_connect_order [of ?ep2 "\<lambda>a. 9" ?w2 0, THEN conjunct2, THEN conjunct1,
         rule_format, OF p2]
  have d: "trace (snd (fst (co_connect (\<lambda>a. 9) (?ep2, ?w2)))) =
             [manager_allocate_subchannel_id, manager_send_open 3,
              manager_subchannel_local_open 3,
              factory_buildProtocol (SubchannelAddress 3), protocol_makeConnection 9 2]"
    and e: "snd (co_connect (\<lambda>a. 9) (?ep2, ?w2)) = fired 9"
    by simp_all
  from p0 a f b c d e show ?thesis by (simp only: simp_thms)
qed

lemma le_connect_unbound:
  "le_factory ep = Some f \<Longrightarrow> protocol (heap w t) = None \<Longrightarrow>
   le_connect t a ep w = (fst (build_and_connect f a t w), None)"
  by (simp add: le_connect_def build_and_connect_unbound)

lemma build_and_connect_heap_other:
  "t' \<noteq> t \<Longrightarrow> heap (fst (build_and_connect f a t w)) t' = heap w t'"
  by (simp add: build_and_connect_def heap_set_protocol_def log_def Let_def
        split: prod.splits option.splits)

lemma listen_loop_drains:
  assumes "pending_opens ep = q" and "le_factory ep = Some f"
    and "distinct (map fst q)" and "\<forall>x\<in>set q. protocol (heap w (fst x)) = None"
  shows "listen_loop (ep, w) =
           ((ep\<lparr>pending_opens := []\<rparr>,
             fold (\<lambda>x w. fst (build_and_connect f (snd x) (fst x) w)) q w), None)"
  using assms
proof (induction q arbitrary: ep w)
  case Nil
  then show ?case by (simp add: listen_loop_Nil)
next
  case (Cons x q)
  obtain t a where x: "x = (t, a)" by (cases x)
  let ?ep1 = "ep\<lparr>pending_opens := q\<rparr>"
  let ?w1 = "fst (build_and_connect f a t w)"
  have u: "protocol (heap w t) = None" using Cons.prems(4) x by simp
  have c: "le_connect t a ?ep1 w = (?w1, None)"
    using Cons.prems(2) u by (simp add: le_connect_unbound)
  have "\<forall>y\<in>set q. protocol (heap ?w1 (fst y)) = None"
  proof
    fix y assume y: "y \<in> set q"
    with Cons.prems(3) x have "fst y \<noteq> t" by force
    with Cons.prems(4) y show "protocol (heap ?w1 (fst y)) = None"
      by (simp add: build_and_connect_heap_other)
  qed
  with Cons.prems have "listen_loop (?ep1, ?w1) =
           ((?ep1\<lparr>pending_opens := []\<rparr>,
             fold (\<lambda>x w. fst (build_and_connect f (snd x) (fst x) w)) q ?w1), None)"
    by (intro Cons.IH) simp_all
  with c Cons.prems(1) x show ?case
    by (simp add: listen_loop_Cons [of ep t a q w])
qed

lemma fold_connect_trace:
  assumes "distinct (map fst q)" and "\<forall>x\<in>set q. protocol (heap w (fst x)) = None"
  shows "trace (fold (\<lambda>x w. fst (build_and_connect f (snd x) (fst x) w)) q w) =
           trace w @
           concat (map (\<lambda>x. [factory_buildProtocol (snd x)] @
                            fst (snd (set_protocol (f (snd x)) (heap w (fst x)))) @
                            [protocol_makeConnection (f (snd x)) (fst x)]) q)"
  using assms
proof (induction q arbitrary: w)
  case Nil
  then show ?case by simp
next
  case (Cons x q)
  let ?w1 = "fst (build_and_connect f (snd x) (fst x) w)"
  have u: "protocol (heap w (fst x)) = None" using Cons.prems(2) by simp
  have o: "\<forall>y\<in>set q. heap ?w1 (fst y) = heap w (fst y)"
  proof
    fix y assume y: "y \<in> set q"
    with Cons.prems(1) have "fst y \<noteq> fst x" by (auto simp: image_iff)
    then show "heap ?w1 (fst y) = heap w (fst y)"
      by (simp add: build_and_connect_heap_other)
  qed
  with Cons.prems have "\<forall>y\<in>set q. protocol (heap ?w1 (fst y)) = None" by simp
  with Cons.prems(1) have A:
    "trace (fold (\<lambda>x w. fst (build_and_connect f (snd x) (fst x) w)) q ?w1) =
       trace ?w1 @
       concat (map (\<lambda>x. [factory_buildProtocol (snd x)] @
                        fst (snd (set_protocol (f (snd x)) (heap ?w1 (fst x)))) @
                        [protocol_makeConnection (f (snd x)) (fst x)]) q)"
    by (intro Cons.IH) simp_all
  have B: "map (\<lambda>x. [factory_buildProtocol (snd x)] @
                        fst (snd (set_protocol (f (snd x)) (heap ?w1 (fst x)))) @
                        [protocol_makeConnection (f (snd x)) (fst x)]) q =
                 map (\<lambda>x. [factory_buildProtocol (snd x)] @
                        fst (snd (set_protocol (f (snd x)) (heap w (fst x)))) @
                        [protocol_makeConnection (f (snd x)) (fst x)]) q"
    using o by (intro map_cong) simp_all
  have C: "trace ?w1 = trace w @ [factory_buildProtocol (snd x)] @
                        fst (snd (set_protocol (f (snd x)) (heap w (fst x)))) @
                        [protocol_makeConnection (f (snd x)) (fst x)]"
    using u by (simp add: build_and_connect_unbound)
  have "fold (\<lambda>x w. fst (build_and_connect f (snd x) (fst x) w)) (x # q) w =
        fold (\<lambda>x w. fst (build_and_connect f (snd x) (fst x) w)) q ?w1"
    by simp
  then show ?case
    by (simp only: A B C) simp
qed

lemma fold_connect_heap:
  assumes "distinct (map fst q)" and "\<forall>x\<in>set q. protocol (heap w (fst x)) = None"
  shows "heap (fold (\<lambda>x w. fst (build_and_connect f (snd x) (fst x) w)) q w) t =
           (case find (\<lambda>x. fst x = t) q of
              None \<Rightarrow> heap w t
            | Some x \<Rightarrow> fst (set_protocol (f (snd x)) (heap w t)))"
  using assms
proof (induction q arbitrary: w)
  case Nil
  then show ?case by simp
next
  case (Cons x q)
  let ?w1 = "fst (build_and_connect f (snd x) (fst x) w)"
  have u: "protocol (heap w (fst x)) = None" using Cons.prems(2) by simp
  have o: "\<forall>y\<in>set q. heap ?w1 (fst y) = heap w (fst y)"
  proof
    fix y assume y: "y \<in> set q"
    with Cons.prems(1) have "fst y \<noteq> fst x" by (auto simp: image_iff)
    then show "heap ?w1 (fst y) = heap w (fst y)"
      by (simp add: build_and_connect_heap_other)
  qed
  with Cons.prems have "\<forall>y\<in>set q. protocol (heap ?w1 (fst y)) = None" by simp
  with Cons.prems(1) have ih:
    "heap (fold (\<lambda>x w. fst (build_and_connect f (snd x) (fst x) w)) q ?w1) t =
       (case find (\<lambda>x. fst x = t) q of
          None \<Rightarrow> heap ?w1 t
        | Some x \<Rightarrow> fst (set_protocol (f (snd x)) (heap ?w1 t)))"
    by (intro Cons.IH) simp_all
  show ?case
  proof (cases "fst x = t")
    case True
    with Cons.prems(1) have "find (\<lambda>x. fst x = t) q = None"
      by (auto simp: find_None_iff image_iff)
    with ih True u show ?thesis
      by (simp add: build_and_connect_unbound)
  next
    case False
    then have "heap ?w1 t = heap w t" by (simp add: build_and_connect_heap_other)
    with ih False show ?thesis by (simp split: option.splits)
  qed
qed

lemma listen_resume_ready:
  assumes "distinct (map fst (pending_opens ep))"
    and "\<forall>x\<in>set (pending_opens ep). protocol (heap w (fst x)) = None"
  shows "listen_resume ready f (ep, w) =
           ((ep\<lparr>le_factory := Some f, pending_opens := []\<rparr>,
             fold (\<lambda>x w. fst (build_and_connect f (snd x) (fst x) w)) (pending_opens ep) w),
            fired (SubchannelListeningPort (le_host_addr ep)))"
proof -
  have "listen_loop (ep\<lparr>le_factory := Some f\<rparr>, w) =
          ((ep\<lparr>le_factory := Some f\<rparr>\<lparr>pending_opens := []\<rparr>,
            fold (\<lambda>x w. fst (build_and_connect f (snd x) (fst x) w)) (pending_opens ep) w),
           None)"
    using assms by (intro listen_loop_drains) simp_all
  then show ?thesis by (simp add: listen_resume_def)
qed

lemma listen_settled_ready:
  assumes "\<not> le_once ep" and "obs_result (le_wait_for_main_channel ep) = Some ready"
    and "distinct (map fst (pending_opens ep))"
    and "\<forall>x\<in>set (pending_opens ep). protocol (heap w (fst x)) = None"
  shows "listen f (ep, w) =
           ((ep\<lparr>le_once := True, le_factory := Some f, pending_opens := []\<rparr>,
             fold (\<lambda>x w. fst (build_and_connect f (snd x) (fst x) w)) (pending_opens ep) w),
            fired (SubchannelListeningPort (le_host_addr ep)))"
proof -
  have "listen f (ep, w) = listen_resume ready f (ep\<lparr>le_once := True\<rparr>, w)"
    using assms(1,2) by (simp add: listen_def when_fired_def Let_def)
  also have "\<dots> = ((ep\<lparr>le_once := True\<rparr>\<lparr>le_factory := Some f, pending_opens := []\<rparr>,
             fold (\<lambda>x w. fst (build_and_connect f (snd x) (fst x) w))
               (pending_opens (ep\<lparr>le_once := True\<rparr>)) w),
            fired (SubchannelListeningPort (le_host_addr (ep\<lparr>le_once := True\<rparr>))))"
    using assms(3,4) by (intro listen_resume_ready) simp_all
  finally show ?thesis by simp
qed

lemma le_main_channel_ready_one:
  assumes "obs_result (le_wait_for_main_channel ep) = None"
    and "observers (le_wait_for_main_channel ep) = [f]"
    and "distinct (map fst (pending_opens ep))"
    and "\<forall>x\<in>set (pending_opens ep). protocol (heap w (fst x)) = None"
  shows "le_main_channel ready (ep, w) =
           ((ep\<lparr>le_wait_for_main_channel :=
                  (le_wait_for_main_channel ep)\<lparr>obs_result := Some ready, observers := []\<rparr>,
                le_factory := Some f, pending_opens := []\<rparr>,
             fold (\<lambda>x w. fst (build_and_connect f (snd x) (fst x) w)) (pending_opens ep) w),
            [fired (SubchannelListeningPort (le_host_addr ep))])"
proof -
  let ?ep1 = "ep\<lparr>le_wait_for_main_channel :=
                  (le_wait_for_main_channel ep)\<lparr>obs_result := Some ready, observers := []\<rparr>\<rparr>"
  have "listen_resume ready f (?ep1, w) =
          ((?ep1\<lparr>le_factory := Some f, pending_opens := []\<rparr>,
             fold (\<lambda>x w. fst (build_and_connect f (snd x) (fst x) w)) (pending_opens ?ep1) w),
            fired (SubchannelListeningPort (le_host_addr ?ep1)))"
    using assms(3,4) by (intro listen_resume_ready) simp_all
  with assms(1,2) show ?thesis
    by (simp add: le_main_channel_def settle_def)
qed

text \<open>
  Claim C7. While the listener endpoint has no factory, an incoming open is appended at
  the end of \<open>pending_opens\<close> and nothing else happens. A \<open>listen\<close> that finds the signal
  settled to ready (and a \<open>listen\<close> suspended earlier, when the signal settles to ready)
  records the factory and connects the queued opens from the front of the queue to its
  end, so in the order they came in: for each, \<open>buildProtocol\<close> with its peer address,
  the deliveries of \<open>_set_protocol\<close>, then \<open>makeConnection\<close>; the queue is empty afterwards
  and the Deferred fires with the listening port. Once the factory is there, an
  incoming open is connected in the call itself and the queue is left alone. The
  queued subchannels are taken to be distinct objects without a consumer, as the manager
  hands them over.
\<close>

theorem listener_queue_fifo:
  "(le_factory ep = None \<longrightarrow>
      got_open t a (ep, w) =
        ((ep\<lparr>pending_opens := pending_opens ep @ [(t, a)]\<rparr>, w), None))
   \<and> (le_factory ep = Some f \<and> protocol (heap w t) = None \<longrightarrow>
      got_open t a (ep, w) =
        ((ep,
          w\<lparr>heap := (heap w)(t := fst (set_protocol (f a) (heap w t))),
            trace := trace w @ [factory_buildProtocol a] @
                     fst (snd (set_protocol (f a) (heap w t))) @
                     [protocol_makeConnection (f a) t]\<rparr>), None))
   \<and> (le_factory ep \<noteq> None \<longrightarrow>
      pending_opens (fst (fst (got_open t a (ep, w)))) = pending_opens ep)
   \<and> (\<not> le_once ep \<and> obs_result (le_wait_for_main_channel ep) = Some ready
       \<and> distinct (map fst (pending_opens ep))
       \<and> (\<forall>x\<in>set (pending_opens ep). protocol (heap w (fst x)) = None) \<longrightarrow>
      snd (listen f (ep, w)) = fired (SubchannelListeningPort (le_host_addr ep))
      \<and> le_factory (fst (fst (listen f (ep, w)))) = Some f
      \<and> pending_opens (fst (fst (listen f (ep, w)))) = []
      \<and> trace (snd (fst (listen f (ep, w)))) =
          trace w @
          concat (map (\<lambda>x. [factory_buildProtocol (snd x)] @
                           fst (snd (set_protocol (f (snd x)) (heap w (fst x)))) @
                           [protocol_makeConnection (f (snd x)) (fst x)])
                    (pending_opens ep))
      \<and> (\<forall>x\<in>set (pending_opens ep).
            protocol (heap (snd (fst (listen f (ep, w)))) (fst x)) = Some (f (snd x))))
   \<and> (obs_result (le_wait_for_main_channel ep) = None
       \<and> observers (le_wait_for_main_channel ep) = [f]
       \<and> distinct (map fst (pending_opens ep))
       \<and> (\<forall>x\<in>set (pending_opens ep). protocol (heap w (fst x)) = None) \<longrightarrow>
      snd (le_main_channel ready (ep, w)) = [fired (SubchannelListeningPort (le_host_addr ep))]
      \<and> le_factory (fst (fst (le_main_channel ready (ep, w)))) = Some f
      \<and> pending_opens (fst (fst (le_main_channel ready (ep, w)))) = []
      \<and> trace (snd (fst (le_main_channel ready (ep, w)))) =
          trace w @
          concat (map (\<lambda>x. [factory_buildProtocol (snd x)] @
                           fst (snd (set_protocol (f (snd x)) (heap w (fst x)))) @
                           [protocol_makeConnection (f (snd x)) (fst x)])
                    (pending_opens ep)))"
proof (intro conjI impI)
  assume "le_factory ep = None"
  then show "got_open t a (ep, w) =
        ((ep\<lparr>pending_opens := pending_opens ep @ [(t, a)]\<rparr>, w), None)"
    by (simp add: got_open_def)
next
  assume "le_factory ep = Some f \<and> protocol (heap w t) = None"
  then show "got_open t a (ep, w) =
        ((ep,
          w\<lparr>heap := (heap w)(t := fst (set_protocol (f a) (heap w t))),
            trace := trace w @ [factory_buildProtocol a] @
                     fst (snd (set_protocol (f a) (heap w t))) @
                     [protocol_makeConnection (f a) t]\<rparr>), None)"
    by (simp add: got_open_def le_connect_def build_and_connect_unbound)
next
  assume "le_factory ep \<noteq> None"
  then show "pending_opens (fst (fst (got_open t a (ep, w)))) = pending_opens ep"
    by (simp add: got_open_def split: prod.splits)
next
  assume h: "\<not> le_once ep \<and> obs_result (le_wait_for_main_channel ep) = Some ready
       \<and> distinct (map fst (pending_opens ep))
       \<and> (\<forall>x\<in>set (pending_opens ep). protocol (heap w (fst x)) = None)"
  then have l: "listen f (ep, w) =
           ((ep\<lparr>le_once := True, le_factory := Some f, pending_opens := []\<rparr>,
             fold (\<lambda>x w. fst (build_and_connect f (snd x) (fst x) w)) (pending_opens ep) w),
            fired (SubchannelListeningPort (le_host_addr ep)))"
    by (intro listen_settled_ready) simp_all
  show "snd (listen f (ep, w)) = fired (SubchannelListeningPort (le_host_addr ep))"
    and "le_factory (fst (fst (listen f (ep, w)))) = Some f"
    and "pending_opens (fst (fst (listen f (ep, w)))) = []"
    by (simp_all add: l)
  show "trace (snd (fst (listen f (ep, w)))) =
          trace w @
          concat (map (\<lambda>x. [factory_buildProtocol (snd x)] @
                           fst (snd (set_protocol (f (snd x)) (heap w (fst x)))) @
                           [protocol_makeConnection (f (snd x)) (fst x)])
                    (pending_opens ep))"
    using h by (simp add: l fold_connect_trace)
  show "\<forall>x\<in>set (pending_opens ep).
            protocol (heap (snd (fst (listen f (ep, w)))) (fst x)) = Some (f (snd x))"
  proof
    fix x assume x: "x \<in> set (pending_opens ep)"
    from h have d: "distinct (map fst (pending_opens ep))" by simp
    from x have "find (\<lambda>y. fst y = fst x) (pending_opens ep) \<noteq> None"
      unfolding find_None_iff by blast
    then obtain y where y: "find (\<lambda>y. fst y = fst x) (pending_opens ep) = Some y"
      by blast
    then have "y \<in> set (pending_opens ep)" and "fst y = fst x"
      by (auto simp: find_Some_iff)
    with d x have "y = x"
      by (metis distinct_map inj_on_def)
    with y h x show "protocol (heap (snd (fst (listen f (ep, w)))) (fst x)) = Some (f (snd x))"
      by (simp add: l fold_connect_heap set_protocol_unbound)
  qed
next
  assume h: "obs_result (le_wait_for_main_channel ep) = None
       \<and> observers (le_wait_for_main_channel ep) = [f]
       \<and> distinct (map fst (pending_opens ep))
       \<and> (\<forall>x\<in>set (pending_opens ep). protocol (heap w (fst x)) = None)"
  then have l: "le_main_channel ready (ep, w) =
           ((ep\<lparr>le_wait_for_main_channel :=
                  (le_wait_for_main_channel ep)\<lparr>obs_result := Some ready, observers := []\<rparr>,
                le_factory := Some f, pending_opens := []\<rparr>,
             fold (\<lambda>x w. fst (build_and_connect f (snd x) (fst x) w)) (pending_opens ep) w),
            [fired (SubchannelListeningPort (le_host_addr ep))])"
    by (intro le_main_channel_ready_one) simp_all
  show "snd (le_main_channel ready (ep, w)) = [fired (SubchannelListeningPort (le_host_addr ep))]"
    and "le_factory (fst (fst (le_main_channel ready (ep, w)))) = Some f"
    and "pending_opens (fst (fst (le_main_channel ready (ep, w)))) = []"
    by (simp_all add: l)
  show "trace (snd (fst (le_main_channel ready (ep, w)))) =
          trace w @
          concat (map (\<lambda>x. [factory_buildProtocol (snd x)] @
                           fst (snd (set_protocol (f (snd x)) (heap w (fst x)))) @
                           [protocol_makeConnection (f (snd x)) (fst x)])
                    (pending_opens ep))"
    using h by (simp add: l fold_connect_trace)
qed

theorem listener_queue_fifo_witness:
  "le_factory (new_SubchannelListenerEndpoint WormholeAddress) = None
   \<and> got_open 1 (SubchannelAddress 1)
        (new_SubchannelListenerEndpoint WormholeAddress,
         \<lparr>heap = (\<lambda>r. new_SubChannel (int r) WormholeAddress (SubchannelAddress (int r))),
          next_ref = 4, trace = [], mgr_ids = (\<lambda>k. 2 * int k + 1), mgr_allocated = 0\<rparr>) =
       (((new_SubchannelListenerEndpoint WormholeAddress)
           \<lparr>pending_opens := [(1, SubchannelAddress 1)]\<rparr>,
         \<lparr>heap = (\<lambda>r. new_SubChannel (int r) WormholeAddress (SubchannelAddress (int r))),
          next_ref = 4, trace = [], mgr_ids = (\<lambda>k. 2 * int k + 1), mgr_allocated = 0\<rparr>),
        None)
   \<and> got_open 2 (SubchannelAddress 2)
        ((new_SubchannelListenerEndpoint WormholeAddress)
           \<lparr>pending_opens := [(1, SubchannelAddress 1)]\<rparr>,
         \<lparr>heap = (\<lambda>r. new_SubChannel (int r) WormholeAddress (SubchannelAddress (int r))),
          next_ref = 4, trace = [], mgr_ids = (\<lambda>k. 2 * int k + 1), mgr_allocated = 0\<rparr>) =
       (((new_SubchannelListenerEndpoint WormholeAddress)
           \<lparr>pending_opens := [(1, SubchannelAddress 1), (2, SubchannelAddress 2)]\<rparr>,
         \<lparr>heap = (\<lambda>r. new_SubChannel (int r) WormholeAddress (SubchannelAddress (int r))),
          next_ref = 4, trace = [], mgr_ids = (\<lambda>k. 2 * int k + 1), mgr_allocated = 0\<rparr>),
        None)
   \<and> snd (listen (\<lambda>a. case a of SubchannelAddress i \<Rightarrow> nat i + 10)
        ((new_SubchannelListenerEndpoint WormholeAddress)
           \<lparr>pending_opens := [(1, SubchannelAddress 1), (2, SubchannelAddress 2)],
            le_wait_for_main_channel := \<lparr>obs_result = Some ready, observers = []\<rparr>\<rparr>,
         \<lparr>heap = (\<lambda>r. new_SubChannel (int r) WormholeAddress (SubchannelAddress (int r))),
          next_ref = 4, trace = [], mgr_ids = (\<lambda>k. 2 * int k + 1), mgr_allocated = 0\<rparr>)) =
       fired (SubchannelListeningPort WormholeAddress)
   \<and> pending_opens (fst (fst (listen (\<lambda>a. case a of SubchannelAddress i \<Rightarrow> nat i + 10)
        ((new_SubchannelListenerEndpoint WormholeAddress)
           \<lparr>pending_opens := [(1, SubchannelAddress 1), (2, SubchannelAddress 2)],
            le_wait_for_main_channel := \<lparr>obs_result = Some ready, observers = []\<rparr>\<rparr>,
         \<lparr>heap = (\<lambda>r. new_SubChannel (int r) WormholeAddress (SubchannelAddress (int r))),
          next_ref = 4, trace = [], mgr_ids = (\<lambda>k. 2 * int k + 1), mgr_allocated = 0\<rparr>)))) = []
   \<and> trace (snd (fst (listen (\<lambda>a. case a of SubchannelAddress i \<Rightarrow> nat i + 10)
        ((new_SubchannelListenerEndpoint WormholeAddress)
           \<lparr>pending_opens := [(1, SubchannelAddress 1), (2, SubchannelAddress 2)],
            le_wait_for_main_channel := \<lparr>obs_result = Some ready, observers = []\<rparr>\<rparr>,
         \<lparr>heap = (\<lambda>r. new_SubChannel (int r) WormholeAddress (SubchannelAddress (int r))),
          next_ref = 4, trace = [], mgr_ids = (\<lambda>k. 2 * int k + 1), mgr_allocated = 0\<rparr>)))) =
       [factory_buildProtocol (SubchannelAddress 1), protocol_makeConnection 11 1,
        factory_buildProtocol (SubchannelAddress 2), protocol_makeConnection 12 2]
   \<and> trace (snd (fst (got_open 3 (SubchannelAddress 3)
        (fst (listen (\<lambda>a. case a of SubchannelAddress i \<Rightarrow> nat i + 10)
        ((new_SubchannelListenerEndpoint WormholeAddress)
           \<lparr>pending_opens := [(1, SubchannelAddress 1), (2, SubchannelAddress 2)],
            le_wait_for_main_channel := \<lparr>obs_result = Some ready, observers = []\<rparr>\<rparr>,
         \<lparr>heap = (\<lambda>r. new_SubChannel (int r) WormholeAddress (SubchannelAddress (int r))),
          next_ref = 4, trace = [], mgr_ids = (\<lambda>k. 2 * int k + 1), mgr_allocated = 0\<rparr>)))))) =
       [factory_buildProtocol (SubchannelAddress 1), protocol_makeConnection 11 1,
        factory_buildProtocol (SubchannelAddress 2), protocol_makeConnection 12 2,
        factory_buildProtocol (SubchannelAddress 3), protocol_makeConnection 13 3]
   \<and> pending_opens (fst (fst (got_open 3 (SubchannelAddress 3)
        (fst (listen (\<lambda>a. case a of SubchannelAddress i \<Rightarrow> nat i + 10)
        ((new_SubchannelListenerEndpoint WormholeAddress)
           \<lparr>pending_opens := [(1, SubchannelAddress 1), (2, SubchannelAddress 2)],
            le_wait_for_main_channel := \<lparr>obs_result = Some ready, observers = []\<rparr>\<rparr>,
         \<lparr>heap = (\<lambda>r. new_SubChannel (int r) WormholeAddress (SubchannelAddress (int r))),
          next_ref = 4, trace = [], mgr_ids = (\<lambda>k. 2 * int k + 1), mgr_allocated = 0\<rparr>)))))) = []
   \<and> trace (snd (fst (le_main_channel ready
        ((new_SubchannelListenerEndpoint WormholeAddress)
           \<lparr>le_once := True,
            pending_opens := [(1, SubchannelAddress 1), (2, SubchannelAddress 2)],
            le_wait_for_main_channel :=
              \<lparr>obs_result = None,
               observers = [\<lambda>a. case a of SubchannelAddress i \<Rightarrow> nat i + 10]\<rparr>\<rparr>,
         \<lparr>heap = (\<lambda>r. new_SubChannel (int r) WormholeAddress (SubchannelAddress (int r))),
          next_ref = 4, trace = [], mgr_ids = (\<lambda>k. 2 * int k + 1), mgr_allocated = 0\<rparr>)))) =
       [factory_buildProtocol (SubchannelAddress 1), protocol_makeConnection 11 1,
        factory_buildProtocol (SubchannelAddress 2), protocol_makeConnection 12 2]"
proof -
  let ?w = "\<lparr>heap = (\<lambda>r. new_SubChannel (int r) WormholeAddress (SubchannelAddress (int r))),
          next_ref = 4, trace = [], mgr_ids = (\<lambda>k. 2 * int k + 1), mgr_allocated = 0\<rparr>"
  let ?f = "\<lambda>a. case a of SubchannelAddress i \<Rightarrow> nat i + 10"
  let ?lp = "new_SubchannelListenerEndpoint WormholeAddress"
  let ?q = "[(1::nat, SubchannelAddress 1), (2, SubchannelAddress 2)]"
  let ?lp1 = "?lp\<lparr>pending_opens := [(1, SubchannelAddress 1)]\<rparr>"
  let ?lpr = "?lp\<lparr>pending_opens := ?q,
            le_wait_for_main_channel := \<lparr>obs_result = Some ready, observers = []\<rparr>\<rparr>"
  let ?lps = "?lp\<lparr>le_once := True, pending_opens := ?q,
            le_wait_for_main_channel := \<lparr>obs_result = None, observers = [?f]\<rparr>\<rparr>"
  have n: "le_factory ?lp = None" "le_factory ?lp1 = None" "pending_opens ?lp = []"
    "\<not> le_once ?lpr" "le_host_addr ?lpr = WormholeAddress"
    by (simp_all add: new_SubchannelListenerEndpoint_def)
  have a: "got_open 1 (SubchannelAddress 1) (?lp, ?w) = ((?lp1, ?w), None)"
    using listener_queue_fifo [of ?lp 1 "SubchannelAddress 1" ?w ?f, THEN conjunct1] n
    by simp
  have b: "got_open 2 (SubchannelAddress 2) (?lp1, ?w) = ((?lp\<lparr>pending_opens := ?q\<rparr>, ?w), None)"
    using listener_queue_fifo [of ?lp1 2 "SubchannelAddress 2" ?w ?f, THEN conjunct1] n
    by simp
  have hr: "\<not> le_once ?lpr \<and> obs_result (le_wait_for_main_channel ?lpr) = Some ready
       \<and> distinct (map fst (pending_opens ?lpr))
       \<and> (\<forall>x\<in>set (pending_opens ?lpr). protocol (heap ?w (fst x)) = None)"
    using n by (simp add: new_SubChannel_def)
  note lr = listener_queue_fifo [of ?lpr 3 "SubchannelAddress 3" ?w ?f,
      THEN conjunct2, THEN conjunct2, THEN conjunct2, THEN conjunct1, rule_format, OF hr]
  have c: "snd (listen ?f (?lpr, ?w)) = fired (SubchannelListeningPort WormholeAddress)"
    and d: "pending_opens (fst (fst (listen ?f (?lpr, ?w)))) = []"
    and e: "trace (snd (fst (listen ?f (?lpr, ?w)))) =
       [factory_buildProtocol (SubchannelAddress 1), protocol_makeConnection 11 1,
        factory_buildProtocol (SubchannelAddress 2), protocol_makeConnection 12 2]"
    and fa: "le_factory (fst (fst (listen ?f (?lpr, ?w)))) = Some ?f"
    using lr n by (simp_all add: set_protocol_def new_SubChannel_def Let_def)
  have h3: "heap (snd (fst (listen ?f (?lpr, ?w)))) 3 =
              new_SubChannel 3 WormholeAddress (SubchannelAddress 3)"
    using hr by (simp add: listen_settled_ready build_and_connect_heap_other)
  have g: "got_open 3 (SubchannelAddress 3) (fst (listen ?f (?lpr, ?w))) =
             ((fst (fst (listen ?f (?lpr, ?w))),
               (snd (fst (listen ?f (?lpr, ?w))))
                 \<lparr>heap := (heap (snd (fst (listen ?f (?lpr, ?w)))))
                     (3 := fst (set_protocol 13 (new_SubChannel 3 WormholeAddress (SubchannelAddress 3)))),
                  trace := trace (snd (fst (listen ?f (?lpr, ?w)))) @
                     [factory_buildProtocol (SubchannelAddress 3)] @
                     fst (snd (set_protocol 13 (new_SubChannel 3 WormholeAddress (SubchannelAddress 3)))) @
                     [protocol_makeConnection 13 3]\<rparr>), None)"
    using listener_queue_fifo [of "fst (fst (listen ?f (?lpr, ?w)))" 3 "SubchannelAddress 3"
        "snd (fst (listen ?f (?lpr, ?w)))" ?f, THEN conjunct2, THEN conjunct1] fa h3
    by (simp add: new_SubChannel_def)
  have g1: "trace (snd (fst (got_open 3 (SubchannelAddress 3) (fst (listen ?f (?lpr, ?w)))))) =
       [factory_buildProtocol (SubchannelAddress 1), protocol_makeConnection 11 1,
        factory_buildProtocol (SubchannelAddress 2), protocol_makeConnection 12 2,
        factory_buildProtocol (SubchannelAddress 3), protocol_makeConnection 13 3]"
    and g2: "pending_opens (fst (fst (got_open 3 (SubchannelAddress 3)
               (fst (listen ?f (?lpr, ?w)))))) = []"
    by (simp_all add: g e d del: One_nat_def)
       (simp add: set_protocol_def new_SubChannel_def Let_def)
  have hs: "obs_result (le_wait_for_main_channel ?lps) = None
       \<and> observers (le_wait_for_main_channel ?lps) = [?f]
       \<and> distinct (map fst (pending_opens ?lps))
       \<and> (\<forall>x\<in>set (pending_opens ?lps). protocol (heap ?w (fst x)) = None)"
    by (simp add: new_SubChannel_def)
  have s: "trace (snd (fst (le_main_channel ready (?lps, ?w)))) =
       [factory_buildProtocol (SubchannelAddress 1), protocol_makeConnection 11 1,
        factory_buildProtocol (SubchannelAddress 2), protocol_makeConnection 12 2]"
    using listener_queue_fifo [of ?lps 3 "SubchannelAddress 3" ?w ?f,
      THEN conjunct2, THEN conjunct2, THEN conjunct2, THEN conjunct2, rule_format, OF hs]
    by (simp add: set_protocol_def new_SubChannel_def Let_def)
  from n(1) a b c d e g1 g2 s show ?thesis by (simp only: simp_thms)
qed

end
